theory Spec2Isabelle
  imports Complex_Main
begin

section \<open>Scalars and vector algebra\<close>

text \<open>
  The scalar type of the algebra plugin is a floating-point type. A scalar is
  modelled by the real number it stands for, and every arithmetic operation of the
  code is followed by the rounding \<open>rnd\<close> of the scalar type, which all operations
  below take as their first argument: the identity stands for exact arithmetic,
  \<open>round_b64\<close> for IEEE binary64. Comparisons are exact. Overflow, infinities and
  NaN are outside the model. Points and vectors are coordinate tuples, passed by
  value as in the source.
\<close>

type_synonym scalar = real
type_synonym rounding = "scalar \<Rightarrow> scalar"
type_synonym point2 = "scalar \<times> scalar"
type_synonym point3 = "scalar \<times> scalar \<times> scalar"
type_synonym vector3 = "scalar \<times> scalar \<times> scalar"

fun vsub :: "rounding \<Rightarrow> point3 \<Rightarrow> point3 \<Rightarrow> vector3" where
  "vsub rnd (a0, a1, a2) (b0, b1, b2) = (rnd (a0 - b0), rnd (a1 - b1), rnd (a2 - b2))"

fun cross :: "rounding \<Rightarrow> vector3 \<Rightarrow> vector3 \<Rightarrow> vector3" where
  "cross rnd (a0, a1, a2) (b0, b1, b2) =
     (rnd (rnd (a1 * b2) - rnd (a2 * b1)),
      rnd (rnd (a2 * b0) - rnd (a0 * b2)),
      rnd (rnd (a0 * b1) - rnd (a1 * b0)))"

fun dot :: "rounding \<Rightarrow> vector3 \<Rightarrow> vector3 \<Rightarrow> scalar" where
  "dot rnd (a0, a1, a2) (b0, b1, b2) =
     rnd (rnd (rnd (a0 * b0) + rnd (a1 * b1)) + rnd (a2 * b2))"

text \<open>\<open>getter::perp\<close>: the length of the projection on the x-y plane.\<close>

fun perp :: "rounding \<Rightarrow> vector3 \<Rightarrow> scalar" where
  "perp rnd (a0, a1, a2) = rnd (sqrt (rnd (rnd (a0 * a0) + rnd (a1 * a1))))"

text \<open>\<open>getter::norm\<close>: the Euclidean length.\<close>

fun norm3 :: "rounding \<Rightarrow> vector3 \<Rightarrow> scalar" where
  "norm3 rnd (a0, a1, a2) =
     rnd (sqrt (rnd (rnd (rnd (a0 * a0) + rnd (a1 * a1)) + rnd (a2 * a2))))"

text \<open>
  A matrix is read by row and column. \<open>getter::vector<3>(m, row, col)\<close> takes three
  consecutive entries of one column, starting at \<open>row\<close>.
\<close>

type_synonym matrix = "nat \<Rightarrow> nat \<Rightarrow> scalar"

definition getter_vector3 :: "matrix \<Rightarrow> nat \<Rightarrow> nat \<Rightarrow> vector3" where
  "getter_vector3 m row col = (m row col, m (row + 1) col, m (row + 2) col)"

subsection \<open>IEEE binary64\<close>

text \<open>
  Rounding to the nearest integer, ties to the even one; and rounding to the nearest
  binary64 number, ties to even: a non-zero \<open>x\<close> is rounded to a multiple of
  \<open>2 powi e\<close>, where \<open>e\<close> is the exponent of \<open>x\<close> less the 52 fraction bits, and at least
  the exponent of the subnormal numbers.
\<close>

definition round_half_even :: "real \<Rightarrow> int" where
  "round_half_even y =
     (let f = \<lfloor>y\<rfloor>; d = y - of_int f
      in if d < 1 / 2 then f else if 1 / 2 < d then f + 1 else if even f then f else f + 1)"

definition round_b64 :: rounding where
  "round_b64 x =
     (if x = 0 then 0
      else let e = max (\<lfloor>log 2 \<bar>x\<bar>\<rfloor> - 52) (- 1074)
           in of_int (round_half_even (x / 2 powi e)) * 2 powi e)"

section \<open>Collaborators of the intersector\<close>

text \<open>
  The transform, the helix, the mask and the intersection record are declared in
  headers outside the verified sources. Each is a record of exactly the members the
  code calls; nothing is assumed about what these members compute.
\<close>

record transform3 =
  matrix :: matrix
  point_to_local :: "point3 \<Rightarrow> point3"
  point_to_global :: "point3 \<Rightarrow> point3"

record helix =
  pos :: "scalar \<Rightarrow> point3"
  dir :: "scalar \<Rightarrow> vector3"

datatype direction = e_undefined | e_opposite | e_along

text \<open>
  A mask: \<open>mask_at\<close> is \<open>operator[]\<close> (a cylinder keeps its radius at index 0),
  \<open>is_inside\<close> is \<open>is_inside<local_frame, true>\<close> and \<open>local_global_to_local\<close> is the
  \<open>global_to_local\<close> of the mask's \<open>local_type\<close>. The status enumeration is a type
  parameter.
\<close>

record 'st mask =
  mask_at :: "nat \<Rightarrow> scalar"
  volume_link :: nat
  is_inside :: "point3 \<Rightarrow> scalar \<Rightarrow> 'st"
  local_global_to_local :: "transform3 \<Rightarrow> point3 \<Rightarrow> vector3 \<Rightarrow> point2"

record 'st intersection =
  path :: scalar
  p3 :: point3
  p2 :: point2
  status :: 'st
  direction :: direction
  link :: nat

section \<open>The helix-cylinder intersector\<close>

definition max_n_tries :: nat where
  "max_n_tries = 100"

text \<open>The tolerance: the literal \<open>1e-3\<close> in the scalar type.\<close>

definition tol :: "rounding \<Rightarrow> scalar" where
  "tol rnd = rnd (1 / 1000)"

text \<open>
  The Newton iteration on \<open>s\<close>. The loop leaves in one of two ways: through the early
  return on a zero denominator (\<open>None\<close>), or because its condition fails, with the
  final \<open>s\<close>, \<open>s_prev\<close> and \<open>n_tries\<close>. The last argument is bookkeeping: the
  denominators of the update divisions performed so far, in order.
\<close>

function newton_loop ::
  "rounding \<Rightarrow> helix \<Rightarrow> vector3 \<Rightarrow> point3 \<Rightarrow> scalar \<Rightarrow> scalar \<Rightarrow> scalar \<Rightarrow> nat \<Rightarrow> scalar list
     \<Rightarrow> (scalar \<times> scalar \<times> nat) option \<times> scalar list" where
  "newton_loop rnd h sz sc r s s_prev n_tries divs =
     (if \<bar>rnd (s - s_prev)\<bar> > tol rnd \<and> n_tries < max_n_tries then
        (let crp = cross rnd (vsub rnd (pos h s) sc) sz;
             denom = rnd (2 * dot rnd crp (cross rnd (dir h s) sz))
         in if denom = 0 then (None, divs)
            else newton_loop rnd h sz sc r
                   (rnd (s - rnd (rnd (dot rnd crp crp - rnd (r * r)) / denom))) s
                   (n_tries + 1) (divs @ [denom]))
      else (Some (s, s_prev, n_tries), divs))"
  by pat_completeness auto
termination
  by (relation "measure (\<lambda>(rnd, h, sz, sc, r, s, s_prev, n_tries, divs). max_n_tries - n_tries)")
    auto

declare newton_loop.simps [simp del]

text \<open>The block that fills an intersection record from the helix parameter \<open>s\<close>.\<close>

definition build_intersection ::
  "rounding \<Rightarrow> 'st intersection \<Rightarrow> helix \<Rightarrow> 'st mask \<Rightarrow> transform3 \<Rightarrow> scalar \<Rightarrow> scalar
     \<Rightarrow> 'st intersection" where
  "build_intersection rnd is0 h msk trf mask_tolerance s =
     (let helix_pos = pos h s;
          local3 = point_to_local trf helix_pos
      in is0\<lparr>path := norm3 rnd helix_pos,
             p3 := helix_pos,
             p2 := local_global_to_local msk trf helix_pos (dir h s),
             status := is_inside msk local3 mask_tolerance,
             direction := (if dot rnd helix_pos (dir h s) > 0 then e_along else e_opposite),
             link := volume_link msk\<rparr>)"

text \<open>
  The start of the iteration: the radius is the first mask value, the start value is
  \<open>r * perp(h.dir(tol))\<close>, and the previous value lies 0.1 below it.
\<close>

definition newton_seed :: "rounding \<Rightarrow> helix \<Rightarrow> 'st mask \<Rightarrow> scalar" where
  "newton_seed rnd h msk = rnd (mask_at msk 0 * perp rnd (dir h (tol rnd)))"

definition newton_seed_prev :: "rounding \<Rightarrow> helix \<Rightarrow> 'st mask \<Rightarrow> scalar" where
  "newton_seed_prev rnd h msk = rnd (newton_seed rnd h msk - rnd (1 / 10))"

text \<open>
  The iteration as \<open>operator()\<close> runs it: the cylinder axis and centre are columns 2
  and 3 of the placement matrix.
\<close>

definition newton_run ::
  "rounding \<Rightarrow> helix \<Rightarrow> 'st mask \<Rightarrow> transform3
     \<Rightarrow> (scalar \<times> scalar \<times> nat) option \<times> scalar list" where
  "newton_run rnd h msk trf =
     (let sm = matrix trf;
          sz = getter_vector3 sm 0 2;
          sc = getter_vector3 sm 0 3;
          r = mask_at msk 0;
          s = newton_seed rnd h msk;
          s_prev = newton_seed_prev rnd h msk
      in newton_loop rnd h sz sc r s s_prev 0 [])"

text \<open>
  \<open>operator()\<close>. The second argument is the default-constructed intersection, with
  which both slots of the output array start. Slot 0 is the first component of the
  result, slot 1 the second.
\<close>

definition helix_cylinder_intersector ::
  "rounding \<Rightarrow> 'st intersection \<Rightarrow> helix \<Rightarrow> 'st mask \<Rightarrow> transform3 \<Rightarrow> scalar
     \<Rightarrow> 'st intersection \<times> 'st intersection" where
  "helix_cylinder_intersector rnd dflt h msk trf mask_tolerance =
     (let ret = (dflt, dflt)
      in case fst (newton_run rnd h msk trf) of
           None \<Rightarrow> ret
         | Some (s, s_prev, n_tries) \<Rightarrow>
             if n_tries = max_n_tries then ret
             else (build_intersection rnd (fst ret) h msk trf mask_tolerance s, snd ret))"

section \<open>The cartesian2 frame\<close>

text \<open>
  \<open>operator()\<close> on a local 3D point keeps the first two coordinates; on a local 2D
  point it is the identity.
\<close>

definition cartesian2_project2 :: "point2 \<Rightarrow> point2" where
  "cartesian2_project2 local2 = local2"

definition cartesian2_project3 :: "point3 \<Rightarrow> point2" where
  "cartesian2_project3 local3 = (fst local3, fst (snd local3))"

definition cartesian2_global_to_local :: "transform3 \<Rightarrow> point3 \<Rightarrow> vector3 \<Rightarrow> point2" where
  "cartesian2_global_to_local trf p d =
     (let local3 = point_to_local trf p in cartesian2_project3 local3)"

definition cartesian2_local_to_global ::
  "transform3 \<Rightarrow> 'mask \<Rightarrow> point2 \<Rightarrow> vector3 \<Rightarrow> point3" where
  "cartesian2_local_to_global trf msk p d = point_to_global trf (fst p, snd p, 0)"

section \<open>The detector as the consistency checker reads it\<close>

text \<open>
  The detector class, the descriptors of surfaces and volumes, the stores and the
  material types are declared in headers outside the verified sources. The records
  below hold what the checker reads of them. An index that may be the invalid sentinel
  (\<open>detail::is_invalid_value\<close>) is an option, with \<open>None\<close> for the sentinel.
\<close>

type_synonym dindex = nat

record typed_index =
  link_id :: nat
  link_index :: dindex

text \<open>
  A surface descriptor: \<open>volume()\<close>, \<open>index()\<close> and \<open>is_portal()\<close> of its barcode,
  its transform and mask links, and its material link when \<open>has_material()\<close> holds.
\<close>

record surface_desc =
  sf_volume :: dindex
  sf_index :: dindex
  is_portal :: bool
  sf_transform :: dindex
  sf_mask :: typed_index
  sf_material :: "typed_index option"

text \<open>
  A volume descriptor. \<open>vol_surfaces\<close> are the surface descriptors held by the
  acceleration data structures of the volume, in the order in which
  \<open>visit_surfaces\<close> reaches them; \<open>vol_material\<close> is the material link when
  \<open>has_material()\<close> holds.
\<close>

record volume_desc =
  vol_index :: dindex
  vol_surfaces :: "surface_desc list"
  vol_material :: "typed_index option"

text \<open>
  Of a material the checker asks whether it equals \<open>vacuum\<close>, of a slab or rod its
  \<open>operator bool\<close>, of a material map its \<open>size()\<close>, \<open>bins()\<close> and \<open>all()\<close>.
\<close>

record material =
  is_vacuum :: bool

record material_slab =
  slab_valid :: bool

record material_map =
  map_size :: nat
  map_bins :: "material_slab list list"
  map_all :: "material_slab list"

text \<open>
  A collection of the material store, by the kind of its \<open>value_type\<close>: this decides
  which overload of the material checker applies.
\<close>

datatype material_coll =
    Material_maps "material_map list"
  | Hom_volume_material "material list"
  | Hom_surface_material "material_slab list"

text \<open>
  The detector: \<open>surfaces\<close> is the flat surface lookup (\<open>det.surfaces()\<close>), \<open>portals\<close>
  is what \<open>det.portals()\<close> returns (the contents of the brute force finder, which may
  hold other surfaces too), the stores are lists of collections, and the last three
  members are \<open>self_check\<close> of a wrapped volume, \<open>self_check\<close> of a wrapped surface and
  \<open>volume_link()\<close> of a wrapped surface.
\<close>

record ('t, 'm, 'a) detector =
  volumes :: "volume_desc list"
  surfaces :: "surface_desc list"
  portals :: "surface_desc list"
  transform_store :: "'t list"
  mask_store :: "'m list list"
  material_store :: "material_coll list"
  accelerator_store :: "'a list list"
  volume_search_grid :: "dindex option list"
  volume_self_check :: "volume_desc \<Rightarrow> bool"
  surface_self_check :: "surface_desc \<Rightarrow> bool"
  surface_volume_link :: "surface_desc \<Rightarrow> dindex option"

text \<open>
  The diagnostics, one constructor for each message the checker composes, with the
  entities the message prints; and the exceptions by their class. \<open>out_of_range\<close>
  stands for an index outside its container (\<open>at()\<close> throws, \<open>operator[]\<close> is undefined
  there): the model stops at that point. Warnings are the lines written to the
  standard output.
\<close>

datatype diag =
    No_volumes
  | No_surfaces
  | No_transforms
  | No_masks
  | No_portals
  | Volume_self_check_failed volume_desc
  | Incorrect_volume_index volume_desc nat
  | Surface_self_check_failed surface_desc
  | Incorrect_volume_index_on_surface nat surface_desc
  | Incorrect_volume_link dindex
  | Surfaces_differ surface_desc surface_desc
  | Searched_in_wrong_volume surface_desc
  | Surface_self_check_failed_at nat surface_desc
  | Incorrect_surface_index surface_desc nat
  | Surface_not_registered surface_desc
  | Empty_material_grid nat dindex
  | Empty_material_bin nat dindex
  | Invalid_map_material nat dindex material_slab
  | Invalid_volume_material dindex material
  | Invalid_surface_material dindex material_slab

datatype exn = runtime_error diag | invalid_argument diag | out_of_range

datatype warning =
    Warn_no_material
  | Warn_empty_collection string nat
  | Warn_no_volume_finder_entries

text \<open>
  The messages behind the constructors:
  \<^item> \<open>No_volumes\<close>, \<open>No_surfaces\<close>, \<open>No_transforms\<close>, \<open>No_masks\<close>, \<open>No_portals\<close>:
    "ERROR: No volumes in detector", "ERROR: No surfaces found", "ERROR: No transforms
    in detector", "ERROR: No masks in detector", "ERROR: No portals in detector";
  \<^item> \<open>Volume_self_check_failed\<close>, \<open>Surface_self_check_failed\<close>: what the failed
    \<open>self_check\<close> wrote; \<open>Surface_self_check_failed_at\<close>: the same, followed by
    "at surface no." and the position;
  \<^item> \<open>Incorrect_volume_index\<close>: "ERROR: Incorrect volume index! Found volume:", the
    volume, "at index", the position;
  \<^item> \<open>Incorrect_volume_index_on_surface\<close>: "ERROR: Incorrect volume index on surface:
    vol", the volume index, "sf:", the surface;
  \<^item> \<open>Incorrect_volume_link\<close>: "ERROR: Incorrect volume link to non-existent volume"
    and the link;
  \<^item> \<open>Surfaces_differ\<close>: "ERROR: Surfaces in volume and detector lookups differ", with
    the surface of the acceleration data structure and the one of the lookup;
  \<^item> \<open>Searched_in_wrong_volume\<close>: "Incorrect volume index on surface:" and the surface
    searched for;
  \<^item> \<open>Incorrect_surface_index\<close>: "ERROR: Incorrect surface index! Found surface:", the
    surface, "at index", the position;
  \<^item> \<open>Surface_not_registered\<close>: "ERROR: Found surface that is not part of its volume's
    navigation acceleration data structures: Surface:" and the surface;
  \<^item> \<open>Empty_material_grid\<close>, \<open>Empty_material_bin\<close>: "Empty material grid:" or "Empty
    material bin:", the type id, "at index", the index;
  \<^item> \<open>Invalid_map_material\<close>, \<open>Invalid_volume_material\<close>, \<open>Invalid_surface_material\<close>:
    "Invalid material found in:" a material map with its type id, "homogeneous volume
    material" or "homogeneous surface material", "at index", the index, and the
    material;
  \<^item> \<open>Warn_no_material\<close>: "WARNING: No material in detector";
    \<open>Warn_empty_collection\<close>: "WARNING:", the store name, "has empty collection no."
    and the number; \<open>Warn_no_volume_finder_entries\<close>: "WARNING: No entries in volume
    finder".
\<close>

text \<open>
  Modelled from the spec: the multi-store (\<open>empty<id>()\<close>, \<open>all_empty()\<close>) is
  declared in a header outside the verified sources. Each store reports emptiness per
  collection; it is entirely empty when every collection is.
\<close>

definition coll_empty :: "material_coll \<Rightarrow> bool" where
  "coll_empty c =
     (case c of Material_maps ms \<Rightarrow> ms = []
      | Hom_volume_material ms \<Rightarrow> ms = []
      | Hom_surface_material ms \<Rightarrow> ms = [])"

definition all_empty :: "('c \<Rightarrow> bool) \<Rightarrow> 'c list \<Rightarrow> bool" where
  "all_empty is_empty store = list_all is_empty store"

text \<open>
  \<open>report_empty\<close>: one warning for every empty collection, by ascending number.
\<close>

definition report_empty :: "('c \<Rightarrow> bool) \<Rightarrow> 'c list \<Rightarrow> string \<Rightarrow> warning list" where
  "report_empty is_empty store store_name =
     map (\<lambda>i. Warn_empty_collection store_name i)
       (filter (\<lambda>i. is_empty (store ! i)) [0..<length store])"

text \<open>
  Modelled from the spec: \<open>det.surface(barcode)\<close> is declared in a header outside the
  verified sources. It fetches the surface from the flat surface lookup table, at the
  index of the barcode.
\<close>

definition det_surface :: "('t, 'm, 'a) detector \<Rightarrow> surface_desc \<Rightarrow> surface_desc option" where
  "det_surface det sf =
     (if sf_index sf < length (surfaces det) then Some (surfaces det ! sf_index sf) else None)"

text \<open>
  Modelled from the spec: \<open>visit_surfaces<functor>(args...)\<close> is declared in a header
  outside the verified sources. It applies the functor to every surface held by the
  acceleration data structures of the volume. A functor returns normally (\<open>Inr\<close>, with the state it
  keeps through its reference arguments) or throws (\<open>Inl\<close>), which ends the visit.
\<close>

fun visit_surfaces ::
  "(surface_desc \<Rightarrow> 's \<Rightarrow> exn + 's) \<Rightarrow> surface_desc list \<Rightarrow> 's \<Rightarrow> exn + 's" where
  "visit_surfaces f [] st = Inr st"
| "visit_surfaces f (sf # sfs) st =
     (case f sf st of Inl e \<Rightarrow> Inl e | Inr st' \<Rightarrow> visit_surfaces f sfs st')"

text \<open>
  The first call operator of \<open>surface_checker\<close>: the checks on a surface found in the
  acceleration data structures of volume \<open>vol_idx\<close>.
\<close>

definition surface_checker_consistency ::
  "('t, 'm, 'a) detector \<Rightarrow> dindex \<Rightarrow> surface_desc \<Rightarrow> unit \<Rightarrow> exn + unit" where
  "surface_checker_consistency det vol_idx sf_descr u =
     (if \<not> surface_self_check det sf_descr then
        Inl (invalid_argument (Surface_self_check_failed sf_descr))
      else if sf_volume sf_descr \<noteq> vol_idx then
        Inl (invalid_argument (Incorrect_volume_index_on_surface vol_idx sf_descr))
      else
        (case (case surface_volume_link det sf_descr of
                 None \<Rightarrow> None
               | Some l \<Rightarrow> if l \<ge> length (volumes det) then Some l else None) of
           Some l \<Rightarrow> Inl (invalid_argument (Incorrect_volume_link l))
         | None \<Rightarrow>
             (case det_surface det sf_descr of
                None \<Rightarrow> Inl out_of_range
              | Some sf_from_lkp \<Rightarrow>
                  if \<not> (sf_from_lkp = sf_descr) then
                    Inl (runtime_error (Surfaces_differ sf_descr sf_from_lkp))
                  else Inr ())))"

text \<open>
  The second call operator of \<open>surface_checker\<close>: \<open>ref_descr\<close> is the visited surface,
  \<open>check_descr\<close> the one searched for, \<open>success\<close> the flag set through the reference.
\<close>

definition surface_checker_search :: "surface_desc \<Rightarrow> surface_desc \<Rightarrow> bool \<Rightarrow> exn + bool" where
  "surface_checker_search check_descr ref_descr success =
     (if sf_volume ref_descr \<noteq> sf_volume check_descr then
        Inl (invalid_argument (Searched_in_wrong_volume check_descr))
      else if ref_descr = check_descr then Inr True
      else Inr success)"

text \<open>
  The two call operators of \<open>material_checker\<close>; \<open>None\<close> means that the call
  returned without throwing. \<open>check_material_map\<close> is the body of the first one, for
  the map at the given index.
\<close>

definition check_material_map :: "nat \<Rightarrow> dindex \<Rightarrow> material_map \<Rightarrow> exn option" where
  "check_material_map type_id idx mat_map =
     (if map_size mat_map = 0 then Some (invalid_argument (Empty_material_grid type_id idx))
      else if list_ex (\<lambda>bin. length bin = 0) (map_bins mat_map) then
        Some (invalid_argument (Empty_material_bin type_id idx))
      else
        (case find (\<lambda>slab. \<not> slab_valid slab) (map_all mat_map) of
           Some slab \<Rightarrow> Some (invalid_argument (Invalid_map_material type_id idx slab))
         | None \<Rightarrow> None))"

definition material_checker :: "material_coll \<Rightarrow> dindex \<Rightarrow> nat \<Rightarrow> exn option" where
  "material_checker material_coll idx type_id =
     (case material_coll of
        Material_maps ms \<Rightarrow>
          if idx < length ms then check_material_map type_id idx (ms ! idx) else Some out_of_range
      | Hom_volume_material ms \<Rightarrow>
          if idx < length ms then
            (if is_vacuum (ms ! idx) then
               Some (invalid_argument (Invalid_volume_material idx (ms ! idx)))
             else None)
          else Some out_of_range
      | Hom_surface_material ms \<Rightarrow>
          if idx < length ms then
            (if \<not> slab_valid (ms ! idx) then
               Some (invalid_argument (Invalid_surface_material idx (ms ! idx)))
             else None)
          else Some out_of_range)"

text \<open>
  Modelled from the spec: \<open>visit_material<functor>(id)\<close> is declared in a header
  outside the verified sources. It calls the functor on the collection of the material store that the link names,
  with the index of the link and the id.
\<close>

definition visit_material :: "material_coll list \<Rightarrow> typed_index \<Rightarrow> exn option" where
  "visit_material store lnk =
     (if link_id lnk < length store then
        material_checker (store ! link_id lnk) (link_index lnk) (link_id lnk)
      else Some out_of_range)"

text \<open>The two lambdas of \<open>check_empty\<close>.\<close>

definition find_portals :: "('t, 'm, 'a) detector \<Rightarrow> bool" where
  "find_portals det =
     (if portals det = [] then False else list_ex is_portal (portals det))"

definition find_volumes :: "dindex option list \<Rightarrow> bool" where
  "find_volumes vf = list_ex (\<lambda>v. v \<noteq> None) vf"

text \<open>
  \<open>check_empty\<close>: either the fatal error thrown, or the warnings printed, in order.
\<close>

definition check_empty :: "('t, 'm, 'a) detector \<Rightarrow> bool \<Rightarrow> exn + warning list" where
  "check_empty det verbose =
     (if volumes det = [] then Inl (runtime_error No_volumes)
      else if surfaces det = [] then Inl (runtime_error No_surfaces)
      else if transform_store det = [] then Inl (runtime_error No_transforms)
      else if all_empty (\<lambda>c. c = []) (mask_store det) then Inl (runtime_error No_masks)
      else if \<not> find_portals det then Inl (runtime_error No_portals)
      else Inr
        ((if all_empty coll_empty (material_store det) then [Warn_no_material]
          else if verbose then report_empty coll_empty (material_store det) ''material store''
          else []) @
         (if verbose then
            report_empty (\<lambda>c. c = []) (mask_store det) ''mask store'' @
            report_empty (\<lambda>c. c = []) (accelerator_store det)
              ''acceleration data structures store''
          else []) @
         (if \<not> find_volumes (volume_search_grid det) then [Warn_no_volume_finder_entries]
          else [])))"

text \<open>
  The body of the loop over the volumes, at position \<open>idx\<close>, and the loop.
\<close>

definition check_volume :: "('t, 'm, 'a) detector \<Rightarrow> nat \<Rightarrow> volume_desc \<Rightarrow> exn option" where
  "check_volume det idx vol_desc =
     (if \<not> volume_self_check det vol_desc then
        Some (invalid_argument (Volume_self_check_failed vol_desc))
      else if vol_index vol_desc \<noteq> idx then
        Some (invalid_argument (Incorrect_volume_index vol_desc idx))
      else
        (case visit_surfaces (surface_checker_consistency det (vol_index vol_desc))
                (vol_surfaces vol_desc) () of
           Inl e \<Rightarrow> Some e
         | Inr u \<Rightarrow>
             (case vol_material vol_desc of
                None \<Rightarrow> None
              | Some lnk \<Rightarrow> visit_material (material_store det) lnk)))"

fun check_volumes :: "('t, 'm, 'a) detector \<Rightarrow> nat \<Rightarrow> volume_desc list \<Rightarrow> exn option" where
  "check_volumes det idx [] = None"
| "check_volumes det idx (vol_desc # rest) =
     (case check_volume det idx vol_desc of
        Some e \<Rightarrow> Some e
      | None \<Rightarrow> check_volumes det (idx + 1) rest)"

text \<open>
  The body of the loop over the surface lookup, at position \<open>idx\<close>, and the loop.
\<close>

definition check_surface :: "('t, 'm, 'a) detector \<Rightarrow> nat \<Rightarrow> surface_desc \<Rightarrow> exn option" where
  "check_surface det idx sf_desc =
     (if \<not> surface_self_check det sf_desc then
        Some (invalid_argument (Surface_self_check_failed_at idx sf_desc))
      else if sf_index sf_desc \<noteq> idx then
        Some (invalid_argument (Incorrect_surface_index sf_desc idx))
      else if \<not> sf_volume sf_desc < length (volumes det) then Some out_of_range
      else
        (case visit_surfaces (surface_checker_search sf_desc)
                (vol_surfaces (volumes det ! sf_volume sf_desc)) False of
           Inl e \<Rightarrow> Some e
         | Inr is_registered \<Rightarrow>
             if \<not> is_registered then Some (invalid_argument (Surface_not_registered sf_desc))
             else
               (case sf_material sf_desc of
                  None \<Rightarrow> None
                | Some lnk \<Rightarrow> visit_material (material_store det) lnk)))"

fun check_surfaces :: "('t, 'm, 'a) detector \<Rightarrow> nat \<Rightarrow> surface_desc list \<Rightarrow> exn option" where
  "check_surfaces det idx [] = None"
| "check_surfaces det idx (sf_desc # rest) =
     (case check_surface det idx sf_desc of
        Some e \<Rightarrow> Some e
      | None \<Rightarrow> check_surfaces det (idx + 1) rest)"

text \<open>
  \<open>check_consistency\<close>: the warnings printed, and either the exception thrown or the
  value returned.
\<close>

definition check_consistency ::
  "('t, 'm, 'a) detector \<Rightarrow> bool \<Rightarrow> warning list \<times> (exn + bool)" where
  "check_consistency det verbose =
     (case check_empty det verbose of
        Inl e \<Rightarrow> ([], Inl e)
      | Inr ws \<Rightarrow>
          (ws,
           case check_volumes det 0 (volumes det) of
             Some e \<Rightarrow> Inl e
           | None \<Rightarrow>
               (case check_surfaces det 0 (surfaces det) of
                  Some e \<Rightarrow> Inl e
                | None \<Rightarrow> Inr True)))"

section \<open>The io type ids\<close>

text \<open>
  Modelled from the spec: \<open>type_registry\<close> (detray/utils/type_registry.hpp) lies
  outside the verified sources. It is a compile-time mapping between the registered types
  and small integer ids: a type is defined in a registry when it is one of the
  registered types, and its id is its position in the list of registered types
  (the comment in the grid overload of \<open>get_id\<close>: the first type corresponds to the
  first enumerator). A position filled with \<open>void\<close> holds no type (\<open>None\<close>). Ids are
  read as their underlying integers.
\<close>

definition is_defined :: "'t option list \<Rightarrow> 't \<Rightarrow> bool" where
  "is_defined registered t = (Some t \<in> set registered)"

fun type_index :: "'t option list \<Rightarrow> 't \<Rightarrow> nat" where
  "type_index [] t = 0"
| "type_index (x # xs) t = (if x = Some t then 0 else Suc (type_index xs t))"

definition registry_get_id :: "'t option list \<Rightarrow> 't \<Rightarrow> nat" where
  "registry_get_id registered t = type_index registered t"

text \<open>
  The shape types, as far as \<open>get_id\<close> tells them apart: the registered ones, the
  other instances of \<open>single3D\<close>, and any further shape by its name.
\<close>

datatype shape_type =
    annulus2D | cuboid3D | cylinder2D | cylinder3D | concentric_cylinder2D
  | rectangle2D | ring2D | trapezoid2D | wire_cell | straw_tube
  | single3D nat
  | unregistered_shape string

definition shape_registry :: "shape_type option list" where
  "shape_registry =
     [Some annulus2D, Some cuboid3D, Some cylinder2D, Some cylinder3D,
      Some concentric_cylinder2D, Some rectangle2D, Some ring2D, Some trapezoid2D,
      Some wire_cell, Some straw_tube, Some (single3D 0), Some (single3D 1),
      Some (single3D 2)]"

text \<open>
  \<open>get_id\<close> for a shape. The enumeration \<open>io::shape_id\<close> is declared elsewhere; its
  enumerator \<open>unknown\<close> is the first argument.
\<close>

definition get_id_shape :: "nat \<Rightarrow> shape_type \<Rightarrow> nat" where
  "get_id_shape unknown shape_t =
     (if is_defined shape_registry shape_t then registry_get_id shape_registry shape_t
      else unknown)"

text \<open>
  The local frames of a grid, all over the algebra of the grid's own frame.
\<close>

datatype frame_type =
    cartesian2 | cartesian3 | polar2 | concentric_cylindrical2 | cylindrical2
  | cylindrical3
  | unregistered_frame string

definition frame_registry :: "frame_type option list" where
  "frame_registry =
     [None, Some cartesian2, Some cartesian3, Some polar2, Some concentric_cylindrical2,
      Some cylindrical2, Some cylindrical3]"

text \<open>
  \<open>get_id\<close> for a surface grid, by the grid's \<open>local_frame_type\<close>; \<open>unknown\<close> is the
  enumerator of \<open>io::accel_id\<close>.
\<close>

definition get_id_grid :: "nat \<Rightarrow> frame_type \<Rightarrow> nat" where
  "get_id_grid unknown frame_t =
     (if is_defined frame_registry frame_t then registry_get_id frame_registry frame_t
      else unknown)"

section \<open>Concrete inputs\<close>

text \<open>
  Modelled from the spec: the helix class is declared in a header outside the
  verified sources. A helix of zero curvature is a straight line: its position at
  path length \<open>s\<close> is the start point plus \<open>s\<close> times the unit direction, computed in
  the scalar type, and its direction is the same everywhere.
\<close>

fun vadd :: "rounding \<Rightarrow> point3 \<Rightarrow> vector3 \<Rightarrow> point3" where
  "vadd rnd (a0, a1, a2) (b0, b1, b2) = (rnd (a0 + b0), rnd (a1 + b1), rnd (a2 + b2))"

fun vscale :: "rounding \<Rightarrow> scalar \<Rightarrow> vector3 \<Rightarrow> vector3" where
  "vscale rnd c (a0, a1, a2) = (rnd (c * a0), rnd (c * a1), rnd (c * a2))"

definition straight_helix :: "rounding \<Rightarrow> point3 \<Rightarrow> vector3 \<Rightarrow> helix" where
  "straight_helix rnd p0 d = \<lparr>pos = (\<lambda>s. vadd rnd p0 (vscale rnd s d)), dir = (\<lambda>s. d)\<rparr>"

text \<open>
  A cylinder of radius 1 around the z axis, placed by the identity, the intersection
  record that stands for the default-constructed one, and two lines given in exact
  arithmetic: one parallel to the axis at distance 2, and one along x that starts at
  \<open>(-2, 0, 5)\<close> and crosses the axis.
\<close>

definition identity_placement :: transform3 where
  "identity_placement =
     \<lparr>matrix = (\<lambda>i j. if i = j then 1 else 0),
      point_to_local = (\<lambda>p. p),
      point_to_global = (\<lambda>p. p)\<rparr>"

definition unit_cylinder :: "bool mask" where
  "unit_cylinder =
     \<lparr>mask_at = (\<lambda>i. if i = 0 then 1 else 10),
      volume_link = 0,
      is_inside = (\<lambda>p tolerance. \<bar>perp (\<lambda>x. x) p - 1\<bar> \<le> tolerance),
      local_global_to_local = (\<lambda>trf p d. (fst (point_to_local trf p), snd (snd (point_to_local trf p))))\<rparr>"

definition blank_intersection :: "bool intersection" where
  "blank_intersection =
     \<lparr>path = 0, p3 = (0, 0, 0), p2 = (0, 0), status = False, direction = e_undefined, link = 0\<rparr>"


definition crossing_line :: helix where
  "crossing_line = \<lparr>pos = (\<lambda>s. (s - 2, 0, 5)), dir = (\<lambda>s. (1, 0, 0))\<rparr>"

text \<open>
  In binary64: a line from the origin whose direction \<open>(2\<^sup>-\<^sup>4\<^sup>7, 0, 1)\<close> is almost
  parallel to the axis of the unit cylinder. The direction is a unit vector of
  binary64: its computed norm is 1. The line meets the cylinder at \<open>s = 2\<^sup>4\<^sup>7\<close>, in the
  point \<open>(1, 0, 2\<^sup>4\<^sup>7)\<close>. \<open>near_axis_from\<close> is the outcome of the loop on this line when
  it is entered in the state \<open>(s, s_prev, n_tries)\<close>.
\<close>

definition axis_slope :: scalar where
  "axis_slope = 1 / 2 ^ 47"

definition near_axis_line :: helix where
  "near_axis_line = straight_helix round_b64 (0, 0, 0) (axis_slope, 0, 1)"

definition near_axis_from :: "scalar \<Rightarrow> scalar \<Rightarrow> nat \<Rightarrow> (scalar \<times> scalar \<times> nat) option" where
  "near_axis_from s s_prev n_tries =
     fst (newton_loop round_b64 near_axis_line (0, 0, 1) (0, 0, 0) 1 s s_prev n_tries [])"




text \<open>
  A placement that turns by a quarter around z and shifts by \<open>(1, 2, 3)\<close>.
\<close>

definition quarter_turn_placement :: transform3 where
  "quarter_turn_placement =
     \<lparr>matrix = (\<lambda>i j. [[0, -1, 0, 1], [1, 0, 0, 2], [0, 0, 1, 3], [0, 0, 0, 1]] ! i ! j),
      point_to_local = (\<lambda>p. (fst (snd p) - 2, 1 - fst p, snd (snd p) - 3)),
      point_to_global = (\<lambda>p. (1 - fst (snd p), 2 + fst p, 3 + snd (snd p)))\<rparr>"

text \<open>
  Detectors: a minimal consistent one (one volume, one portal, one transform, one
  mask, no material), and variations of it.
\<close>

definition portal0 :: surface_desc where
  "portal0 =
     \<lparr>sf_volume = 0, sf_index = 0, is_portal = True, sf_transform = 0,
      sf_mask = \<lparr>link_id = 0, link_index = 0\<rparr>, sf_material = None\<rparr>"

definition plain0 :: surface_desc where
  "plain0 = portal0\<lparr>is_portal := False\<rparr>"


definition volume0 :: volume_desc where
  "volume0 = \<lparr>vol_index = 0, vol_surfaces = [portal0], vol_material = None\<rparr>"

definition minimal_detector :: "(unit, unit, unit) detector" where
  "minimal_detector =
     \<lparr>volumes = [volume0], surfaces = [portal0], portals = [portal0],
      transform_store = [()], mask_store = [[()]],
      material_store = [Hom_surface_material [], Material_maps []],
      accelerator_store = [[()]], volume_search_grid = [Some 0],
      volume_self_check = (\<lambda>v. True), surface_self_check = (\<lambda>sf. True),
      surface_volume_link = (\<lambda>sf. None)\<rparr>"

definition empty_detector :: "(unit, unit, unit) detector" where
  "empty_detector =
     \<lparr>volumes = [], surfaces = [], portals = [],
      transform_store = [], mask_store = [],
      material_store = [], accelerator_store = [], volume_search_grid = [],
      volume_self_check = (\<lambda>v. False), surface_self_check = (\<lambda>sf. False),
      surface_volume_link = (\<lambda>sf. None)\<rparr>"

definition hidden_portal_detector :: "(unit, unit, unit) detector" where
  "hidden_portal_detector = minimal_detector\<lparr>portals := []\<rparr>"

definition stray_portal_detector :: "(unit, unit, unit) detector" where
  "stray_portal_detector =
     minimal_detector\<lparr>volumes := [volume0\<lparr>vol_surfaces := [plain0]\<rparr>], surfaces := [plain0]\<rparr>"



section \<open>Properties of the intersector\<close>

subsection \<open>Rounding to binary64\<close>

text \<open>
  How \<open>round_b64\<close> is evaluated: a value between \<open>2 powi (e + 52)\<close> and \<open>2 powi (e + 53)\<close>
  is rounded to the nearest multiple \<open>k * 2 powi e\<close>, in a tie to the one with even \<open>k\<close>;
  a number \<open>m * 2 powi e\<close> with \<open>\<bar>m\<bar> < 2\<^sup>5\<^sup>3\<close> is a binary64 number and is kept.
\<close>

lemma round_half_even_near:
  assumes "\<bar>y - of_int k\<bar> < 1 / 2"
  shows "round_half_even y = k"
proof -
  define f where "f = \<lfloor>y\<rfloor>"
  define d where "d = y - of_int f"
  have rhe: "round_half_even y =
      (if d < 1 / 2 then f else if 1 / 2 < d then f + 1 else if even f then f else f + 1)"
    by (simp add: round_half_even_def Let_def f_def d_def)
  have "f = k \<or> f = k - 1" unfolding f_def using assms by linarith
  then show ?thesis
  proof
    assume "f = k"
    moreover from this have "d < 1 / 2" unfolding d_def using assms by linarith
    ultimately show ?thesis by (simp add: rhe)
  next
    assume fk: "f = k - 1"
    then have "d = y - of_int k + 1" unfolding d_def by simp
    then have "1 / 2 < d" using assms by linarith
    then show ?thesis using fk by (simp add: rhe)
  qed
qed

lemma round_half_even_tie:
  assumes "y = of_int k + 1 / 2 \<or> y = of_int k - 1 / 2" "even k"
  shows "round_half_even y = k"
proof -
  define f where "f = \<lfloor>y\<rfloor>"
  define d where "d = y - of_int f"
  have rhe: "round_half_even y =
      (if d < 1 / 2 then f else if 1 / 2 < d then f + 1 else if even f then f else f + 1)"
    by (simp add: round_half_even_def Let_def f_def d_def)
  from assms(1) show ?thesis
  proof
    assume y: "y = of_int k + 1 / 2"
    then have fk: "f = k" unfolding f_def by linarith
    then have "d = 1 / 2" unfolding d_def using y by simp
    then show ?thesis using fk assms(2) by (simp add: rhe)
  next
    assume y: "y = of_int k - 1 / 2"
    then have fk: "f = k - 1" unfolding f_def by linarith
    then have "d = 1 / 2" unfolding d_def using y by simp
    then show ?thesis using fk assms(2) by (simp add: rhe)
  qed
qed

lemma powr_powi: "2 powr (of_int k) = (2::real) powi k"
  by (simp add: powr_real_of_int power_int_def power_one_over inverse_eq_divide)

lemma floor_log2_unique:
  assumes "2 powi k \<le> a" "a < 2 powi (k + 1)"
  shows "\<lfloor>log 2 a\<rfloor> = k"
proof -
  have "0 < a" using assms(1) by (smt (verit) zero_less_power_int)
  then show ?thesis
    using assms floor_log_eq_powr_iff [of a 2 k]
    by (simp add: powr_powi del: of_int_add)
qed

lemma round_b64_unit:
  assumes "- 1022 \<le> e + 52" "2 powi (e + 52) \<le> \<bar>x\<bar>" "\<bar>x\<bar> < 2 powi (e + 53)"
  shows "round_b64 x = of_int (round_half_even (x / 2 powi e)) * 2 powi e"
proof -
  have nz: "x \<noteq> 0" using assms(2) by (smt (verit) zero_less_power_int)
  have "\<lfloor>log 2 \<bar>x\<bar>\<rfloor> = e + 52"
    using assms(2,3) by (intro floor_log2_unique) (simp_all add: add.commute add.left_commute)
  then have "max (\<lfloor>log 2 \<bar>x\<bar>\<rfloor> - 52) (- 1074) = e" using assms(1) by simp
  then show ?thesis using nz by (simp add: round_b64_def Let_def)
qed

lemma round_b64_nearest:
  assumes "- 1022 \<le> e + 52" "2 powi (e + 52) \<le> \<bar>x\<bar>" "\<bar>x\<bar> < 2 powi (e + 53)"
    and "\<bar>x / 2 powi e - of_int k\<bar> < 1 / 2"
  shows "round_b64 x = of_int k * 2 powi e"
  using round_b64_unit [OF assms(1-3)] round_half_even_near [OF assms(4)] by simp

lemma round_b64_tie:
  assumes "- 1022 \<le> e + 52" "2 powi (e + 52) \<le> \<bar>x\<bar>" "\<bar>x\<bar> < 2 powi (e + 53)"
    and "x / 2 powi e = of_int k + 1 / 2 \<or> x / 2 powi e = of_int k - 1 / 2" "even k"
  shows "round_b64 x = of_int k * 2 powi e"
  using round_b64_unit [OF assms(1-3)] round_half_even_tie [OF assms(4,5)] by simp

lemma round_b64_zero [simp]: "round_b64 0 = 0"
  by (simp add: round_b64_def)

lemma round_b64_exact:
  assumes "\<bar>m\<bar> < 2 ^ 53" "- 1074 \<le> e"
  shows "round_b64 (of_int m * 2 powi e) = of_int m * 2 powi e"
proof (cases "m = 0")
  case True
  then show ?thesis by simp
next
  case False
  define x :: real where "x = of_int m * 2 powi e"
  define E where "E = max (\<lfloor>log 2 \<bar>x\<bar>\<rfloor> - 52) (- 1074)"
  have xnz: "x \<noteq> 0" using False by (simp add: x_def)
  have xpos: "0 < \<bar>x\<bar>" using xnz by simp
  have "\<bar>x\<bar> = \<bar>of_int m\<bar> * 2 powi e" by (simp add: x_def abs_mult)
  also have "\<dots> < 2 ^ 53 * 2 powi e"
  proof -
    have "\<bar>of_int m :: real\<bar> < 2 ^ 53"
      using assms(1) by (metis of_int_abs of_int_less_numeral_power_cancel_iff)
    then show ?thesis by (simp add: mult_strict_right_mono)
  qed
  also have "\<dots> = 2 powi (e + 53)" by (simp add: power_int_add)
  finally have ub: "\<bar>x\<bar> < 2 powi (e + 53)" .
  have "log 2 \<bar>x\<bar> < of_int (e + 53)"
    using ub xpos by (simp add: log_less_iff powr_powi del: of_int_add)
  then have "\<lfloor>log 2 \<bar>x\<bar>\<rfloor> < e + 53" by (simp add: floor_less_iff)
  then have Ee: "E \<le> e" using assms(2) by (simp add: E_def)
  define n where "n = nat (e - E)"
  have en: "e = E + int n" using Ee by (simp add: n_def)
  have "x / 2 powi E = of_int m * 2 ^ n"
    by (simp add: x_def en power_int_add)
  then have quot: "x / 2 powi E = of_int (m * 2 ^ n)" by simp
  have "round_half_even (x / 2 powi E) = m * 2 ^ n"
    unfolding quot by (rule round_half_even_near) simp
  then have "round_b64 x = of_int (m * 2 ^ n) * 2 powi E"
    using xnz by (simp add: round_b64_def Let_def E_def)
  also have "\<dots> = x / 2 powi E * 2 powi E" by (simp only: quot)
  also have "\<dots> = x" by simp
  finally show ?thesis by (simp add: x_def)
qed

lemma tol_b64: "tol round_b64 = 1152921504606847 / 2 ^ 60"
  using round_b64_nearest [of "- 62" "1 / 1000" 4611686018427388] by (simp add: tol_def)

lemma tenth_b64: "round_b64 (1 / 10) = 3602879701896397 / 2 ^ 55"
  using round_b64_nearest [of "- 56" "1 / 10" 7205759403792794] by simp

lemma round_b64_one [simp]: "round_b64 1 = 1"
  using round_b64_exact [of 1 0] by simp

lemma round_b64_two [simp]: "round_b64 2 = 2"
  using round_b64_exact [of 2 0] by simp



lemma round_b64_pow2: "round_b64 (2 ^ a) = 2 ^ a" "round_b64 (- (2 ^ a)) = - (2 ^ a)"
  using round_b64_exact [of 1 "int a"] round_b64_exact [of "- 1" "int a"]
  by simp_all

lemma round_b64_absorb_one: "round_b64 (2 ^ (c + 54) - 1) = 2 ^ (c + 54)"
proof (cases c)
  case 0
  show ?thesis
    unfolding 0 using round_b64_tie [of 1 "2 ^ 54 - 1" "2 ^ 53"] by simp
next
  case (Suc d)
  define u :: real where "u = 2 ^ (d + 2)"
  have u: "4 \<le> u" unfolding u_def using one_le_power [of "2::real" d] by simp
  have x: "(2::real) ^ (c + 54) = 2 ^ 53 * u"
    by (simp add: Suc u_def power_add)
  have e: "2 powi (int (d + 2)) = u" "2 powi (int (d + 2) + 52) = 2 ^ 52 * u"
    "2 powi (int (d + 2) + 53) = 2 ^ 53 * u"
    by (simp_all add: u_def power_int_add)
  have "round_b64 (2 ^ 53 * u - 1) = of_int (2 ^ 53) * 2 powi (int (d + 2))"
  proof (rule round_b64_nearest)
    show "- 1022 \<le> int (d + 2) + 52" by simp
    show "2 powi (int (d + 2) + 52) \<le> \<bar>2 ^ 53 * u - 1\<bar>"
      unfolding e using u by simp
    show "\<bar>2 ^ 53 * u - 1\<bar> < 2 powi (int (d + 2) + 53)"
      unfolding e using u by simp
    have "(2 ^ 53 * u - 1) / u - 2 ^ 53 = - (1 / u)"
      using u by (simp add: field_simps)
    moreover have "1 / u < 1 / 2" using u by (simp add: field_simps)
    ultimately show "\<bar>(2 ^ 53 * u - 1) / 2 powi (int (d + 2)) - of_int (2 ^ 53)\<bar> < 1 / 2"
      unfolding e using u by simp
  qed
  then show ?thesis unfolding x e by simp
qed

subsection \<open>How the loop unfolds\<close>

lemma newton_loop_exit:
  assumes "\<not> (tol rnd < \<bar>rnd (s - s_prev)\<bar> \<and> n_tries < max_n_tries)"
  shows "newton_loop rnd h sz sc r s s_prev n_tries divs = (Some (s, s_prev, n_tries), divs)"
  by (subst newton_loop.simps) (simp only: assms if_False)







lemma newton_loop_stopped:
  "fst (newton_loop rnd h sz sc r s s_prev n_tries divs) = Some (s', s_prev', n') \<Longrightarrow>
   n_tries \<le> max_n_tries \<Longrightarrow>
   n' \<le> max_n_tries \<and> (n' < max_n_tries \<longrightarrow> \<bar>rnd (s' - s_prev')\<bar> \<le> tol rnd)"
proof (induction rnd h sz sc r s s_prev n_tries divs rule: newton_loop.induct)
  case (1 rnd h sz sc r s s_prev n_tries divs)
  show ?case
  proof (cases "\<bar>rnd (s - s_prev)\<bar> > tol rnd \<and> n_tries < max_n_tries")
    case False
    then have "newton_loop rnd h sz sc r s s_prev n_tries divs = (Some (s, s_prev, n_tries), divs)"
      by (rule newton_loop_exit)
    with "1.prems" False show ?thesis by auto
  next
    case guard: True
    define crp where "crp = cross rnd (vsub rnd (pos h s) sc) sz"
    define denom where "denom = rnd (2 * dot rnd crp (cross rnd (dir h s) sz))"
    show ?thesis
    proof (cases "denom = 0")
      case True
      then have "newton_loop rnd h sz sc r s s_prev n_tries divs = (None, divs)"
        using guard by (subst newton_loop.simps) (simp add: Let_def crp_def denom_def)
      with "1.prems" show ?thesis by simp
    next
      case False
      have "newton_loop rnd h sz sc r s s_prev n_tries divs =
            newton_loop rnd h sz sc r
              (rnd (s - rnd (rnd (dot rnd crp crp - rnd (r * r)) / denom))) s (n_tries + 1)
              (divs @ [denom])"
        using guard False by (subst newton_loop.simps) (simp add: Let_def crp_def denom_def)
      with "1.prems" guard show ?thesis
        by (intro "1.IH" [OF guard crp_def denom_def False]) simp_all
    qed
  qed
qed

lemma newton_loop_counts:
  "newton_loop rnd h sz sc r s s_prev n_tries divs = (Some (s', s_prev', n'), ds) \<Longrightarrow>
   length ds + n_tries = length divs + n'"
proof (induction rnd h sz sc r s s_prev n_tries divs rule: newton_loop.induct)
  case (1 rnd h sz sc r s s_prev n_tries divs)
  show ?case
  proof (cases "\<bar>rnd (s - s_prev)\<bar> > tol rnd \<and> n_tries < max_n_tries")
    case False
    then have "newton_loop rnd h sz sc r s s_prev n_tries divs = (Some (s, s_prev, n_tries), divs)"
      by (rule newton_loop_exit)
    with "1.prems" show ?thesis by simp
  next
    case guard: True
    define crp where "crp = cross rnd (vsub rnd (pos h s) sc) sz"
    define denom where "denom = rnd (2 * dot rnd crp (cross rnd (dir h s) sz))"
    show ?thesis
    proof (cases "denom = 0")
      case True
      then have "newton_loop rnd h sz sc r s s_prev n_tries divs = (None, divs)"
        using guard by (subst newton_loop.simps) (simp add: Let_def crp_def denom_def)
      with "1.prems" show ?thesis by simp
    next
      case False
      have "newton_loop rnd h sz sc r s s_prev n_tries divs =
            newton_loop rnd h sz sc r
              (rnd (s - rnd (rnd (dot rnd crp crp - rnd (r * r)) / denom))) s (n_tries + 1)
              (divs @ [denom])"
        using guard False by (subst newton_loop.simps) (simp add: Let_def crp_def denom_def)
      with "1.prems" have "length ds + (n_tries + 1) = length (divs @ [denom]) + n'"
        by (intro "1.IH" [OF guard crp_def denom_def False]) simp
      then show ?thesis by simp
    qed
  qed
qed

lemma slot0_filled_before_cap:
  assumes "fst (newton_run rnd h msk trf) = Some (s, s_prev, n_tries)" "n_tries \<noteq> max_n_tries"
  shows "\<bar>rnd (s - s_prev)\<bar> \<le> tol rnd"
    and "helix_cylinder_intersector rnd dflt h msk trf mask_tolerance =
           (build_intersection rnd dflt h msk trf mask_tolerance s, dflt)"
proof -
  have "n_tries \<le> max_n_tries \<and> (n_tries < max_n_tries \<longrightarrow> \<bar>rnd (s - s_prev)\<bar> \<le> tol rnd)"
    using assms(1) unfolding newton_run_def Let_def
    by (rule newton_loop_stopped) simp
  with assms(2) show "\<bar>rnd (s - s_prev)\<bar> \<le> tol rnd" by simp
  show "helix_cylinder_intersector rnd dflt h msk trf mask_tolerance =
           (build_intersection rnd dflt h msk trf mask_tolerance s, dflt)"
    using assms by (simp add: helix_cylinder_intersector_def)
qed

lemma newton_loop_fst_divs:
  "fst (newton_loop rnd h sz sc r s s_prev n ds) = fst (newton_loop rnd h sz sc r s s_prev n ds')"
proof (induction rnd h sz sc r s s_prev n ds arbitrary: ds' rule: newton_loop.induct)
  case (1 rnd h sz sc r s s_prev n_tries divs)
  show ?case
  proof (cases "\<bar>rnd (s - s_prev)\<bar> > tol rnd \<and> n_tries < max_n_tries")
    case False
    then show ?thesis
      by (subst newton_loop.simps, subst (2) newton_loop.simps) (simp only: if_False fst_conv)
  next
    case True
    define crp where "crp = cross rnd (vsub rnd (pos h s) sc) sz"
    define denom where "denom = rnd (2 * dot rnd crp (cross rnd (dir h s) sz))"
    define s' where "s' = rnd (s - rnd (rnd (dot rnd crp crp - rnd (r * r)) / denom))"
    have unf: "newton_loop rnd h sz sc r s s_prev n_tries xs =
        (if denom = 0 then (None, xs)
         else newton_loop rnd h sz sc r s' s (n_tries + 1) (xs @ [denom]))" for xs
      using True by (subst newton_loop.simps) (simp add: Let_def crp_def denom_def s'_def)
    show ?thesis
    proof (cases "denom = 0")
      case True
      then show ?thesis by (simp add: unf)
    next
      case False
      have "fst (newton_loop rnd h sz sc r s' s (n_tries + 1) (divs @ [denom])) =
            fst (newton_loop rnd h sz sc r s' s (n_tries + 1) (ds' @ [denom]))"
        using "1.IH" [OF True crp_def denom_def False] by (simp only: s'_def)
      then show ?thesis using False by (simp add: unf)
    qed
  qed
qed

lemma crossing_run:
  "newton_run (\<lambda>x. x) crossing_line unit_cylinder identity_placement = (Some (1, 1, 1), [- 2])"
  unfolding newton_run_def Let_def
  apply (subst newton_loop.simps)
  apply (simp add: crossing_line_def unit_cylinder_def identity_placement_def getter_vector3_def
      tol_def max_n_tries_def newton_seed_def newton_seed_prev_def)
  apply (subst newton_loop.simps)
  apply (simp add: tol_def)
  done

subsection \<open>The far line parallel to the axis\<close>





subsection \<open>The line almost parallel to the axis\<close>

text \<open>
  One pass of the loop body on this line, from a binary64 number \<open>s\<close>. The position is
  \<open>(x, 0, s)\<close> with \<open>x = s * 2\<^sup>-\<^sup>4\<^sup>7\<close>, and the denominator is \<open>2 * x * 2\<^sup>-\<^sup>4\<^sup>7\<close>; both are scalings
  by powers of two and exact. What is rounded is the square \<open>X2\<close> of \<open>x\<close>, the objective
  \<open>F = X2 - 1\<close>, the step \<open>St\<close> and the next value \<open>s'\<close>.
\<close>

lemma near_axis_step:
  fixes m e :: int
  assumes s: "s = of_int m * 2 powi e" "m \<noteq> 0" "\<bar>m\<bar> < 2 ^ 53" "- 900 \<le> e"
    and X2: "round_b64 (s * axis_slope * (s * axis_slope)) = X2" "round_b64 X2 = X2"
    and F: "round_b64 (X2 - 1) = F"
    and St: "round_b64 (F / (2 * (s * axis_slope * axis_slope))) = St"
    and s': "round_b64 (s - St) = s'"
    and guard: "tol round_b64 < \<bar>round_b64 (s - sp)\<bar>" "n < 100"
  shows "newton_loop round_b64 near_axis_line (0, 0, 1) (0, 0, 0) 1 s sp n ds =
         newton_loop round_b64 near_axis_line (0, 0, 1) (0, 0, 0) 1 s' s (Suc n)
           (ds @ [2 * (s * axis_slope * axis_slope)])"
proof -
  have snz: "s \<noteq> 0" using s(1,2) by simp
  have q: "axis_slope = 2 powi (- 47)" by (simp add: axis_slope_def)
  have exact: "round_b64 (s * 2 powi j) = s * 2 powi j"
    "round_b64 (- (s * 2 powi j)) = - (s * 2 powi j)" if "- 100 \<le> j" for j
  proof -
    have "s * 2 powi j = of_int m * 2 powi (e + j)" by (simp add: s(1) power_int_add)
    moreover have "- (s * 2 powi j) = of_int (- m) * 2 powi (e + j)"
      by (simp add: s(1) power_int_add)
    ultimately show "round_b64 (s * 2 powi j) = s * 2 powi j"
      "round_b64 (- (s * 2 powi j)) = - (s * 2 powi j)"
      using round_b64_exact [of m "e + j"] round_b64_exact [of "- m" "e + j"] s(3,4) that
      by simp_all
  qed
  have Rs: "round_b64 s = s" using exact(1) [of 0] by simp
  have Rx: "round_b64 (s * axis_slope) = s * axis_slope"
    "round_b64 (- (s * axis_slope)) = - (s * axis_slope)"
    using exact [of "- 47"] by (simp_all only: q)
  have xq: "s * axis_slope * axis_slope = s * 2 powi (- 94)"
    by (simp add: axis_slope_def)
  have Rxq: "round_b64 (s * axis_slope * axis_slope) = s * axis_slope * axis_slope"
    unfolding xq by (rule exact(1)) simp
  have D: "2 * (s * axis_slope * axis_slope) = s * 2 powi (- 93)"
    by (simp add: axis_slope_def)
  have RD: "round_b64 (2 * (s * axis_slope * axis_slope)) = 2 * (s * axis_slope * axis_slope)"
    unfolding D by (rule exact(1)) simp
  have Rq: "round_b64 axis_slope = axis_slope" "round_b64 (- axis_slope) = - axis_slope"
    using round_b64_exact [of 1 "- 47"] round_b64_exact [of "- 1" "- 47"]
    by (simp_all add: axis_slope_def)
  have R1: "round_b64 1 = 1" using round_b64_exact [of 1 0] by simp
  have dnz: "2 * (s * axis_slope * axis_slope) \<noteq> 0" using snz by (simp add: axis_slope_def)
  show ?thesis
    using guard dnz
    apply (subst newton_loop.simps)
    apply (simp add: near_axis_line_def straight_helix_def max_n_tries_def Let_def
        Rs Rx Rxq RD Rq R1 X2 F St s')
    done
qed

lemma near_axis_pass:
  fixes m e :: int
  assumes step: "s = of_int m * 2 powi e" "m \<noteq> 0" "\<bar>m\<bar> < 2 ^ 53" "- 900 \<le> e"
      "round_b64 (s * axis_slope * (s * axis_slope)) = X2" "round_b64 X2 = X2"
      "round_b64 (X2 - 1) = F"
      "round_b64 (F / (2 * (s * axis_slope * axis_slope))) = St"
      "round_b64 (s - St) = s'"
      "tol round_b64 < \<bar>round_b64 (s - sp)\<bar>" "n < 100"
    and n': "n' = Suc n"
  shows "near_axis_from s sp n = near_axis_from s' s n'"
proof -
  have "near_axis_from s sp n =
        fst (newton_loop round_b64 near_axis_line (0, 0, 1) (0, 0, 0) 1 s' s n'
               ([] @ [2 * (s * axis_slope * axis_slope)]))"
    unfolding near_axis_from_def n' by (simp only: near_axis_step [OF step, of "[]"])
  also have "\<dots> = near_axis_from s' s n'"
    unfolding near_axis_from_def by (rule newton_loop_fst_divs)
  finally show ?thesis .
qed

text \<open>
  From \<open>s = 2\<^sup>7\<^sup>4\<close> upwards the square of \<open>x\<close> is \<open>2\<^sup>5\<^sup>4\<close> or more, so the objective \<open>X2 - 1\<close>
  rounds to \<open>X2\<close>, and the pass halves \<open>s\<close>.
\<close>

lemma near_axis_pow_x: "(2::real) ^ (k + 74) * axis_slope = 2 ^ (k + 27)"
  by (simp add: axis_slope_def power_add)

lemma near_axis_pow_x2: "(2::real) ^ (k + 74) * axis_slope * (2 ^ (k + 74) * axis_slope) = 2 ^ (k + k + 54)"
proof -
  have "(2::real) ^ (k + 74) * axis_slope * (2 ^ (k + 74) * axis_slope) = 2 ^ (k + 27) * 2 ^ (k + 27)"
    by (simp only: near_axis_pow_x)
  also have "\<dots> = 2 ^ ((k + 27) + (k + 27))" by (simp only: power_add)
  also have "(k + 27) + (k + 27) = k + k + 54" by simp
  finally show ?thesis .
qed

lemma near_axis_pow_denom: "2 * ((2::real) ^ (k + 74) * axis_slope * axis_slope) = 2 ^ k / 2 ^ 19"
  by (simp add: axis_slope_def power_add)

lemma near_axis_pow_step: "(2::real) ^ (k + k + 54) / (2 ^ k / 2 ^ 19) = 2 ^ (k + 73)"
proof -
  define p :: real where "p = 2 ^ k"
  have p: "p \<noteq> 0" by (simp add: p_def)
  have "(2::real) ^ (k + k + 54) = p * p * 2 ^ 54" "(2::real) ^ (k + 73) = p * 2 ^ 73"
    by (simp_all only: power_add p_def)
  moreover have "p * p * 2 ^ 54 / (p / 2 ^ 19) = p * 2 ^ 73"
    using p by simp
  ultimately show ?thesis by (simp only: p_def)
qed

lemma near_axis_halve:
  assumes "tol round_b64 < \<bar>round_b64 (2 ^ (k + 74) - sp)\<bar>" "n < 100" "n' = Suc n"
  shows "near_axis_from (2 ^ (k + 74)) sp n = near_axis_from (2 ^ (k + 73)) (2 ^ (k + 74)) n'"
proof -
  have X2: "round_b64 (2 ^ (k + 74) * axis_slope * (2 ^ (k + 74) * axis_slope)) = 2 ^ (k + k + 54)"
    unfolding near_axis_pow_x2 by (rule round_b64_pow2)
  have F: "round_b64 (2 ^ (k + k + 54) - 1) = 2 ^ (k + k + 54)"
    by (rule round_b64_absorb_one)
  have St: "round_b64 (2 ^ (k + k + 54) / (2 * (2 ^ (k + 74) * axis_slope * axis_slope))) =
      2 ^ (k + 73)"
    unfolding near_axis_pow_denom near_axis_pow_step by (rule round_b64_pow2)
  have "(2::real) ^ (k + 74) - 2 ^ (k + 73) = 2 ^ (k + 73)"
    by (simp add: power_add)
  then have s': "round_b64 (2 ^ (k + 74) - 2 ^ (k + 73)) = 2 ^ (k + 73)"
    by (simp only: round_b64_pow2)
  have rep: "(2::real) ^ (k + 74) = of_int 1 * 2 powi int (k + 74)"
    by (simp only: power_int_of_nat of_int_1 mult_1)
  show ?thesis
    by (rule near_axis_pass [OF rep _ _ _ X2 round_b64_pow2(1) F St s' assms]) simp_all
qed

lemma near_axis_halvings:
  "k \<le> 66 \<Longrightarrow>
   near_axis_from (2 ^ (k + 73)) (2 ^ (k + 74)) (68 - k) = near_axis_from (2 ^ 73) (2 ^ 74) 68"
proof (induction k)
  case 0
  show ?case by simp
next
  case (Suc k)
  have "(2::real) ^ (k + 74) - 2 ^ (k + 75) = - (2 ^ (k + 74))"
    by (simp add: power_add)
  then have gap: "round_b64 (2 ^ (k + 74) - 2 ^ (k + 75)) = - (2 ^ (k + 74))"
    by (simp only: round_b64_pow2)
  have big: "(1::real) \<le> 2 ^ (k + 74)" by (rule one_le_power) simp
  have "tol round_b64 < 1" by (simp add: tol_b64)
  with big have "tol round_b64 < 2 ^ (k + 74)" by linarith
  then have guard: "tol round_b64 < \<bar>round_b64 (2 ^ (k + 74) - 2 ^ (k + 75))\<bar>"
    unfolding gap by simp
  have "near_axis_from (2 ^ (k + 74)) (2 ^ (k + 75)) (67 - k) =
        near_axis_from (2 ^ (k + 73)) (2 ^ (k + 74)) (68 - k)"
    using Suc.prems by (intro near_axis_halve guard) simp_all
  also have "\<dots> = near_axis_from (2 ^ 73) (2 ^ 74) 68"
    using Suc.prems by (intro Suc.IH) simp
  finally have "near_axis_from (2 ^ (k + 74)) (2 ^ (k + 75)) (67 - k) =
      near_axis_from (2 ^ 73) (2 ^ 74) 68" .
  moreover have "Suc k + 73 = k + 74" "Suc k + 74 = k + 75" "68 - Suc k = 67 - k"
    by simp_all
  ultimately show ?case by (simp only:)
qed

lemma near_axis_passes_3_to_68:
  "near_axis_from (2 ^ 139) (2 ^ 140) 2 = near_axis_from (2 ^ 73) (2 ^ 74) 68"
  using near_axis_halvings [of 66] by simp

text \<open>
  The run, pass by pass. The start value is \<open>2\<^sup>-\<^sup>4\<^sup>7\<close>, where the objective is \<open>-1\<close> and
  the denominator \<open>2\<^sup>-\<^sup>1\<^sup>4\<^sup>0\<close>: pass 1 jumps to \<open>2\<^sup>1\<^sup>4\<^sup>0\<close>. Passes 2 to 68 halve \<open>s\<close>, down
  to \<open>2\<^sup>7\<^sup>3\<close>. The later passes, each with its rounded values, close in on the crossing
  point: pass 99 lands on \<open>s = 2\<^sup>4\<^sup>7\<close>, where the line is in \<open>(1, 0, 2\<^sup>4\<^sup>7)\<close> on the
  cylinder, and pass 100 makes a step of length 0.
\<close>

lemma near_axis_pass_1:
  "near_axis_from (1 / 2 ^ 47) (- (3602879701896141 / 2 ^ 55)) 0 =
   near_axis_from (2 ^ 140) (1 / 2 ^ 47) 1"
proof -
  have X2: "round_b64 (1 / 2 ^ 47 * axis_slope * (1 / 2 ^ 47 * axis_slope)) = 1 / 2 ^ 188"
    using round_b64_nearest
      [of "- 240" "1 / 2 ^ 47 * axis_slope * (1 / 2 ^ 47 * axis_slope)"
          4503599627370496]
    by (simp add: axis_slope_def)
  have X2r: "round_b64 (1 / 2 ^ 188) = 1 / 2 ^ 188"
    using round_b64_nearest
      [of "- 240" "1 / 2 ^ 188"
          4503599627370496]
    by simp
  have F: "round_b64 (1 / 2 ^ 188 - 1) = - 1"
    using round_b64_nearest
      [of "- 53" "1 / 2 ^ 188 - 1"
          "- 9007199254740992"]
    by simp
  have St: "round_b64 (- 1 / (2 * (1 / 2 ^ 47 * axis_slope * axis_slope))) = - (2 ^ 140)"
    using round_b64_nearest
      [of 88 "- 1 / (2 * (1 / 2 ^ 47 * axis_slope * axis_slope))"
          "- 4503599627370496"]
    by (simp add: axis_slope_def)
  have s': "round_b64 (1 / 2 ^ 47 - - (2 ^ 140)) = 2 ^ 140"
    using round_b64_nearest
      [of 88 "1 / 2 ^ 47 - - (2 ^ 140)"
          4503599627370496]
    by simp
  have G: "round_b64 (1 / 2 ^ 47 - - (3602879701896141 / 2 ^ 55)) = 3602879701896397 / 2 ^ 55"
    using round_b64_nearest
      [of "- 56" "1 / 2 ^ 47 - - (3602879701896141 / 2 ^ 55)"
          7205759403792794]
    by simp
  have guard: "tol round_b64 < \<bar>round_b64 (1 / 2 ^ 47 - - (3602879701896141 / 2 ^ 55))\<bar>"
    unfolding G tol_b64 by simp
  show ?thesis
    by (rule near_axis_pass
          [of "1 / 2 ^ 47" 1 "- 47"
              "1 / 2 ^ 188" "- 1"
              "- (2 ^ 140)" "2 ^ 140"
              "- (3602879701896141 / 2 ^ 55)" 0 1,
           OF _ _ _ _ X2 X2r F St s' guard])
       simp_all
qed

lemma near_axis_pass_2:
  "near_axis_from (2 ^ 140) (1 / 2 ^ 47) 1 =
   near_axis_from (2 ^ 139) (2 ^ 140) 2"
proof -
  have X2: "round_b64 (2 ^ 140 * axis_slope * (2 ^ 140 * axis_slope)) = 2 ^ 186"
    using round_b64_nearest
      [of 134 "2 ^ 140 * axis_slope * (2 ^ 140 * axis_slope)"
          4503599627370496]
    by (simp add: axis_slope_def)
  have X2r: "round_b64 (2 ^ 186) = 2 ^ 186"
    using round_b64_nearest
      [of 134 "2 ^ 186"
          4503599627370496]
    by simp
  have F: "round_b64 (2 ^ 186 - 1) = 2 ^ 186"
    using round_b64_nearest
      [of 133 "2 ^ 186 - 1"
          9007199254740992]
    by simp
  have St: "round_b64 (2 ^ 186 / (2 * (2 ^ 140 * axis_slope * axis_slope))) = 2 ^ 139"
    using round_b64_nearest
      [of 87 "2 ^ 186 / (2 * (2 ^ 140 * axis_slope * axis_slope))"
          4503599627370496]
    by (simp add: axis_slope_def)
  have s': "round_b64 (2 ^ 140 - 2 ^ 139) = 2 ^ 139"
    using round_b64_nearest
      [of 87 "2 ^ 140 - 2 ^ 139"
          4503599627370496]
    by simp
  have G: "round_b64 (2 ^ 140 - 1 / 2 ^ 47) = 2 ^ 140"
    using round_b64_nearest
      [of 87 "2 ^ 140 - 1 / 2 ^ 47"
          9007199254740992]
    by simp
  have guard: "tol round_b64 < \<bar>round_b64 (2 ^ 140 - 1 / 2 ^ 47)\<bar>"
    unfolding G tol_b64 by simp
  show ?thesis
    by (rule near_axis_pass
          [of "2 ^ 140" 1 140
              "2 ^ 186" "2 ^ 186"
              "2 ^ 139" "2 ^ 139"
              "1 / 2 ^ 47" 1 2,
           OF _ _ _ _ X2 X2r F St s' guard])
       simp_all
qed

lemma near_axis_pass_69:
  "near_axis_from (2 ^ 73) (2 ^ 74) 68 =
   near_axis_from (4503599627370497 * 2 ^ 20) (2 ^ 73) 69"
proof -
  have X2: "round_b64 (2 ^ 73 * axis_slope * (2 ^ 73 * axis_slope)) = 2 ^ 52"
    using round_b64_nearest
      [of 0 "2 ^ 73 * axis_slope * (2 ^ 73 * axis_slope)"
          4503599627370496]
    by (simp add: axis_slope_def)
  have X2r: "round_b64 (2 ^ 52) = 2 ^ 52"
    using round_b64_nearest
      [of 0 "2 ^ 52"
          4503599627370496]
    by simp
  have F: "round_b64 (2 ^ 52 - 1) = 4503599627370495"
    using round_b64_nearest
      [of "- 1" "2 ^ 52 - 1"
          9007199254740990]
    by simp
  have St: "round_b64 (4503599627370495 / (2 * (2 ^ 73 * axis_slope * axis_slope))) =
      4503599627370495 * 2 ^ 20"
    using round_b64_nearest
      [of 19 "4503599627370495 / (2 * (2 ^ 73 * axis_slope * axis_slope))"
          9007199254740990]
    by (simp add: axis_slope_def)
  have s': "round_b64 (2 ^ 73 - 4503599627370495 * 2 ^ 20) = 4503599627370497 * 2 ^ 20"
    using round_b64_nearest
      [of 20 "2 ^ 73 - 4503599627370495 * 2 ^ 20"
          4503599627370497]
    by simp
  have G: "round_b64 (2 ^ 73 - 2 ^ 74) = - (2 ^ 73)"
    using round_b64_nearest
      [of 21 "2 ^ 73 - 2 ^ 74"
          "- 4503599627370496"]
    by simp
  have guard: "tol round_b64 < \<bar>round_b64 (2 ^ 73 - 2 ^ 74)\<bar>"
    unfolding G tol_b64 by simp
  show ?thesis
    by (rule near_axis_pass
          [of "2 ^ 73" 1 73
              "2 ^ 52" "4503599627370495"
              "4503599627370495 * 2 ^ 20" "4503599627370497 * 2 ^ 20"
              "2 ^ 74" 68 69,
           OF _ _ _ _ X2 X2r F St s' guard])
       simp_all
qed

lemma near_axis_pass_70:
  "near_axis_from (4503599627370497 * 2 ^ 20) (2 ^ 73) 69 =
   near_axis_from (4503599627370501 * 2 ^ 19) (4503599627370497 * 2 ^ 20) 70"
proof -
  have X2: "round_b64 (4503599627370497 * 2 ^ 20 * axis_slope * (4503599627370497 * 2 ^ 20 * axis_slope)) =
      2251799813685249 / 2"
    using round_b64_nearest
      [of "- 2" "4503599627370497 * 2 ^ 20 * axis_slope * (4503599627370497 * 2 ^ 20 * axis_slope)"
          4503599627370498]
    by (simp add: axis_slope_def)
  have X2r: "round_b64 (2251799813685249 / 2) = 2251799813685249 / 2"
    using round_b64_nearest
      [of "- 2" "2251799813685249 / 2"
          4503599627370498]
    by simp
  have F: "round_b64 (2251799813685249 / 2 - 1) = 2251799813685247 / 2"
    using round_b64_nearest
      [of "- 3" "2251799813685249 / 2 - 1"
          9007199254740988]
    by simp
  have St: "round_b64 (2251799813685247 / 2 / (2 * (4503599627370497 * 2 ^ 20 * axis_slope * axis_slope))) =
      4503599627370493 * 2 ^ 19"
    using round_b64_nearest
      [of 18 "2251799813685247 / 2 / (2 * (4503599627370497 * 2 ^ 20 * axis_slope * axis_slope))"
          9007199254740986]
    by (simp add: axis_slope_def)
  have s': "round_b64 (4503599627370497 * 2 ^ 20 - 4503599627370493 * 2 ^ 19) =
      4503599627370501 * 2 ^ 19"
    using round_b64_nearest
      [of 19 "4503599627370497 * 2 ^ 20 - 4503599627370493 * 2 ^ 19"
          4503599627370501]
    by simp
  have G: "round_b64 (4503599627370497 * 2 ^ 20 - 2 ^ 73) = - (4503599627370495 * 2 ^ 20)"
    using round_b64_nearest
      [of 19 "4503599627370497 * 2 ^ 20 - 2 ^ 73"
          "- 9007199254740990"]
    by simp
  have guard: "tol round_b64 < \<bar>round_b64 (4503599627370497 * 2 ^ 20 - 2 ^ 73)\<bar>"
    unfolding G tol_b64 by simp
  show ?thesis
    by (rule near_axis_pass
          [of "4503599627370497 * 2 ^ 20" 4503599627370497 20
              "2251799813685249 / 2" "2251799813685247 / 2"
              "4503599627370493 * 2 ^ 19" "4503599627370501 * 2 ^ 19"
              "2 ^ 73" 69 70,
           OF _ _ _ _ X2 X2r F St s' guard])
       simp_all
qed

lemma near_axis_pass_71:
  "near_axis_from (4503599627370501 * 2 ^ 19) (4503599627370497 * 2 ^ 20) 70 =
   near_axis_from (4503599627370517 * 2 ^ 18) (4503599627370501 * 2 ^ 19) 71"
proof -
  have X2: "round_b64 (4503599627370501 * 2 ^ 19 * axis_slope * (4503599627370501 * 2 ^ 19 * axis_slope)) =
      2251799813685253 / 2 ^ 3"
    using round_b64_nearest
      [of "- 4" "4503599627370501 * 2 ^ 19 * axis_slope * (4503599627370501 * 2 ^ 19 * axis_slope)"
          4503599627370506]
    by (simp add: axis_slope_def)
  have X2r: "round_b64 (2251799813685253 / 2 ^ 3) = 2251799813685253 / 2 ^ 3"
    using round_b64_nearest
      [of "- 4" "2251799813685253 / 2 ^ 3"
          4503599627370506]
    by simp
  have F: "round_b64 (2251799813685253 / 2 ^ 3 - 1) = 2251799813685245 / 2 ^ 3"
    using round_b64_nearest
      [of "- 5" "2251799813685253 / 2 ^ 3 - 1"
          9007199254740980]
    by simp
  have St: "round_b64 (2251799813685245 / 2 ^ 3 / (2 * (4503599627370501 * 2 ^ 19 * axis_slope * axis_slope))) =
      4503599627370485 * 2 ^ 18"
    using round_b64_nearest
      [of 17 "2251799813685245 / 2 ^ 3 / (2 * (4503599627370501 * 2 ^ 19 * axis_slope * axis_slope))"
          9007199254740970]
    by (simp add: axis_slope_def)
  have s': "round_b64 (4503599627370501 * 2 ^ 19 - 4503599627370485 * 2 ^ 18) =
      4503599627370517 * 2 ^ 18"
    using round_b64_nearest
      [of 18 "4503599627370501 * 2 ^ 19 - 4503599627370485 * 2 ^ 18"
          4503599627370517]
    by simp
  have G: "round_b64 (4503599627370501 * 2 ^ 19 - 4503599627370497 * 2 ^ 20) =
      - (4503599627370493 * 2 ^ 19)"
    using round_b64_nearest
      [of 18 "4503599627370501 * 2 ^ 19 - 4503599627370497 * 2 ^ 20"
          "- 9007199254740986"]
    by simp
  have guard: "tol round_b64 < \<bar>round_b64 (4503599627370501 * 2 ^ 19 - 4503599627370497 * 2 ^ 20)\<bar>"
    unfolding G tol_b64 by simp
  show ?thesis
    by (rule near_axis_pass
          [of "4503599627370501 * 2 ^ 19" 4503599627370501 19
              "2251799813685253 / 2 ^ 3" "2251799813685245 / 2 ^ 3"
              "4503599627370485 * 2 ^ 18" "4503599627370517 * 2 ^ 18"
              "4503599627370497 * 2 ^ 20" 70 71,
           OF _ _ _ _ X2 X2r F St s' guard])
       simp_all
qed

lemma near_axis_pass_72:
  "near_axis_from (4503599627370517 * 2 ^ 18) (4503599627370501 * 2 ^ 19) 71 =
   near_axis_from (4503599627370581 * 2 ^ 17) (4503599627370517 * 2 ^ 18) 72"
proof -
  have X2: "round_b64 (4503599627370517 * 2 ^ 18 * axis_slope * (4503599627370517 * 2 ^ 18 * axis_slope)) =
      2251799813685269 / 2 ^ 5"
    using round_b64_nearest
      [of "- 6" "4503599627370517 * 2 ^ 18 * axis_slope * (4503599627370517 * 2 ^ 18 * axis_slope)"
          4503599627370538]
    by (simp add: axis_slope_def)
  have X2r: "round_b64 (2251799813685269 / 2 ^ 5) = 2251799813685269 / 2 ^ 5"
    using round_b64_nearest
      [of "- 6" "2251799813685269 / 2 ^ 5"
          4503599627370538]
    by simp
  have F: "round_b64 (2251799813685269 / 2 ^ 5 - 1) = 2251799813685237 / 2 ^ 5"
    using round_b64_nearest
      [of "- 7" "2251799813685269 / 2 ^ 5 - 1"
          9007199254740948]
    by simp
  have St: "round_b64 (2251799813685237 / 2 ^ 5 / (2 * (4503599627370517 * 2 ^ 18 * axis_slope * axis_slope))) =
      4503599627370453 * 2 ^ 17"
    using round_b64_nearest
      [of 16 "2251799813685237 / 2 ^ 5 / (2 * (4503599627370517 * 2 ^ 18 * axis_slope * axis_slope))"
          9007199254740906]
    by (simp add: axis_slope_def)
  have s': "round_b64 (4503599627370517 * 2 ^ 18 - 4503599627370453 * 2 ^ 17) =
      4503599627370581 * 2 ^ 17"
    using round_b64_nearest
      [of 17 "4503599627370517 * 2 ^ 18 - 4503599627370453 * 2 ^ 17"
          4503599627370581]
    by simp
  have G: "round_b64 (4503599627370517 * 2 ^ 18 - 4503599627370501 * 2 ^ 19) =
      - (4503599627370485 * 2 ^ 18)"
    using round_b64_nearest
      [of 17 "4503599627370517 * 2 ^ 18 - 4503599627370501 * 2 ^ 19"
          "- 9007199254740970"]
    by simp
  have guard: "tol round_b64 < \<bar>round_b64 (4503599627370517 * 2 ^ 18 - 4503599627370501 * 2 ^ 19)\<bar>"
    unfolding G tol_b64 by simp
  show ?thesis
    by (rule near_axis_pass
          [of "4503599627370517 * 2 ^ 18" 4503599627370517 18
              "2251799813685269 / 2 ^ 5" "2251799813685237 / 2 ^ 5"
              "4503599627370453 * 2 ^ 17" "4503599627370581 * 2 ^ 17"
              "4503599627370501 * 2 ^ 19" 71 72,
           OF _ _ _ _ X2 X2r F St s' guard])
       simp_all
qed

lemma near_axis_pass_73:
  "near_axis_from (4503599627370581 * 2 ^ 17) (4503599627370517 * 2 ^ 18) 72 =
   near_axis_from (4503599627370837 * 2 ^ 16) (4503599627370581 * 2 ^ 17) 73"
proof -
  have X2: "round_b64 (4503599627370581 * 2 ^ 17 * axis_slope * (4503599627370581 * 2 ^ 17 * axis_slope)) =
      2251799813685333 / 2 ^ 7"
    using round_b64_nearest
      [of "- 8" "4503599627370581 * 2 ^ 17 * axis_slope * (4503599627370581 * 2 ^ 17 * axis_slope)"
          4503599627370666]
    by (simp add: axis_slope_def)
  have X2r: "round_b64 (2251799813685333 / 2 ^ 7) = 2251799813685333 / 2 ^ 7"
    using round_b64_nearest
      [of "- 8" "2251799813685333 / 2 ^ 7"
          4503599627370666]
    by simp
  have F: "round_b64 (2251799813685333 / 2 ^ 7 - 1) = 2251799813685205 / 2 ^ 7"
    using round_b64_nearest
      [of "- 9" "2251799813685333 / 2 ^ 7 - 1"
          9007199254740820]
    by simp
  have St: "round_b64 (2251799813685205 / 2 ^ 7 / (2 * (4503599627370581 * 2 ^ 17 * axis_slope * axis_slope))) =
      4503599627370325 * 2 ^ 16"
    using round_b64_nearest
      [of 15 "2251799813685205 / 2 ^ 7 / (2 * (4503599627370581 * 2 ^ 17 * axis_slope * axis_slope))"
          9007199254740650]
    by (simp add: axis_slope_def)
  have s': "round_b64 (4503599627370581 * 2 ^ 17 - 4503599627370325 * 2 ^ 16) =
      4503599627370837 * 2 ^ 16"
    using round_b64_nearest
      [of 16 "4503599627370581 * 2 ^ 17 - 4503599627370325 * 2 ^ 16"
          4503599627370837]
    by simp
  have G: "round_b64 (4503599627370581 * 2 ^ 17 - 4503599627370517 * 2 ^ 18) =
      - (4503599627370453 * 2 ^ 17)"
    using round_b64_nearest
      [of 16 "4503599627370581 * 2 ^ 17 - 4503599627370517 * 2 ^ 18"
          "- 9007199254740906"]
    by simp
  have guard: "tol round_b64 < \<bar>round_b64 (4503599627370581 * 2 ^ 17 - 4503599627370517 * 2 ^ 18)\<bar>"
    unfolding G tol_b64 by simp
  show ?thesis
    by (rule near_axis_pass
          [of "4503599627370581 * 2 ^ 17" 4503599627370581 17
              "2251799813685333 / 2 ^ 7" "2251799813685205 / 2 ^ 7"
              "4503599627370325 * 2 ^ 16" "4503599627370837 * 2 ^ 16"
              "4503599627370517 * 2 ^ 18" 72 73,
           OF _ _ _ _ X2 X2r F St s' guard])
       simp_all
qed

lemma near_axis_pass_74:
  "near_axis_from (4503599627370837 * 2 ^ 16) (4503599627370581 * 2 ^ 17) 73 =
   near_axis_from (4503599627371861 * 2 ^ 15) (4503599627370837 * 2 ^ 16) 74"
proof -
  have X2: "round_b64 (4503599627370837 * 2 ^ 16 * axis_slope * (4503599627370837 * 2 ^ 16 * axis_slope)) =
      2251799813685589 / 2 ^ 9"
    using round_b64_nearest
      [of "- 10" "4503599627370837 * 2 ^ 16 * axis_slope * (4503599627370837 * 2 ^ 16 * axis_slope)"
          4503599627371178]
    by (simp add: axis_slope_def)
  have X2r: "round_b64 (2251799813685589 / 2 ^ 9) = 2251799813685589 / 2 ^ 9"
    using round_b64_nearest
      [of "- 10" "2251799813685589 / 2 ^ 9"
          4503599627371178]
    by simp
  have F: "round_b64 (2251799813685589 / 2 ^ 9 - 1) = 2251799813685077 / 2 ^ 9"
    using round_b64_nearest
      [of "- 11" "2251799813685589 / 2 ^ 9 - 1"
          9007199254740308]
    by simp
  have St: "round_b64 (2251799813685077 / 2 ^ 9 / (2 * (4503599627370837 * 2 ^ 16 * axis_slope * axis_slope))) =
      4503599627369813 * 2 ^ 15"
    using round_b64_nearest
      [of 14 "2251799813685077 / 2 ^ 9 / (2 * (4503599627370837 * 2 ^ 16 * axis_slope * axis_slope))"
          9007199254739626]
    by (simp add: axis_slope_def)
  have s': "round_b64 (4503599627370837 * 2 ^ 16 - 4503599627369813 * 2 ^ 15) =
      4503599627371861 * 2 ^ 15"
    using round_b64_nearest
      [of 15 "4503599627370837 * 2 ^ 16 - 4503599627369813 * 2 ^ 15"
          4503599627371861]
    by simp
  have G: "round_b64 (4503599627370837 * 2 ^ 16 - 4503599627370581 * 2 ^ 17) =
      - (4503599627370325 * 2 ^ 16)"
    using round_b64_nearest
      [of 15 "4503599627370837 * 2 ^ 16 - 4503599627370581 * 2 ^ 17"
          "- 9007199254740650"]
    by simp
  have guard: "tol round_b64 < \<bar>round_b64 (4503599627370837 * 2 ^ 16 - 4503599627370581 * 2 ^ 17)\<bar>"
    unfolding G tol_b64 by simp
  show ?thesis
    by (rule near_axis_pass
          [of "4503599627370837 * 2 ^ 16" 4503599627370837 16
              "2251799813685589 / 2 ^ 9" "2251799813685077 / 2 ^ 9"
              "4503599627369813 * 2 ^ 15" "4503599627371861 * 2 ^ 15"
              "4503599627370581 * 2 ^ 17" 73 74,
           OF _ _ _ _ X2 X2r F St s' guard])
       simp_all
qed

lemma near_axis_pass_75:
  "near_axis_from (4503599627371861 * 2 ^ 15) (4503599627370837 * 2 ^ 16) 74 =
   near_axis_from (4503599627375957 * 2 ^ 14) (4503599627371861 * 2 ^ 15) 75"
proof -
  have X2: "round_b64 (4503599627371861 * 2 ^ 15 * axis_slope * (4503599627371861 * 2 ^ 15 * axis_slope)) =
      2251799813686613 / 2 ^ 11"
    using round_b64_nearest
      [of "- 12" "4503599627371861 * 2 ^ 15 * axis_slope * (4503599627371861 * 2 ^ 15 * axis_slope)"
          4503599627373226]
    by (simp add: axis_slope_def)
  have X2r: "round_b64 (2251799813686613 / 2 ^ 11) = 2251799813686613 / 2 ^ 11"
    using round_b64_nearest
      [of "- 12" "2251799813686613 / 2 ^ 11"
          4503599627373226]
    by simp
  have F: "round_b64 (2251799813686613 / 2 ^ 11 - 1) = 2251799813684565 / 2 ^ 11"
    using round_b64_nearest
      [of "- 13" "2251799813686613 / 2 ^ 11 - 1"
          9007199254738260]
    by simp
  have St: "round_b64 (2251799813684565 / 2 ^ 11 / (2 * (4503599627371861 * 2 ^ 15 * axis_slope * axis_slope))) =
      4503599627367765 * 2 ^ 14"
    using round_b64_nearest
      [of 13 "2251799813684565 / 2 ^ 11 / (2 * (4503599627371861 * 2 ^ 15 * axis_slope * axis_slope))"
          9007199254735530]
    by (simp add: axis_slope_def)
  have s': "round_b64 (4503599627371861 * 2 ^ 15 - 4503599627367765 * 2 ^ 14) =
      4503599627375957 * 2 ^ 14"
    using round_b64_nearest
      [of 14 "4503599627371861 * 2 ^ 15 - 4503599627367765 * 2 ^ 14"
          4503599627375957]
    by simp
  have G: "round_b64 (4503599627371861 * 2 ^ 15 - 4503599627370837 * 2 ^ 16) =
      - (4503599627369813 * 2 ^ 15)"
    using round_b64_nearest
      [of 14 "4503599627371861 * 2 ^ 15 - 4503599627370837 * 2 ^ 16"
          "- 9007199254739626"]
    by simp
  have guard: "tol round_b64 < \<bar>round_b64 (4503599627371861 * 2 ^ 15 - 4503599627370837 * 2 ^ 16)\<bar>"
    unfolding G tol_b64 by simp
  show ?thesis
    by (rule near_axis_pass
          [of "4503599627371861 * 2 ^ 15" 4503599627371861 15
              "2251799813686613 / 2 ^ 11" "2251799813684565 / 2 ^ 11"
              "4503599627367765 * 2 ^ 14" "4503599627375957 * 2 ^ 14"
              "4503599627370837 * 2 ^ 16" 74 75,
           OF _ _ _ _ X2 X2r F St s' guard])
       simp_all
qed

lemma near_axis_pass_76:
  "near_axis_from (4503599627375957 * 2 ^ 14) (4503599627371861 * 2 ^ 15) 75 =
   near_axis_from (4503599627392341 * 2 ^ 13) (4503599627375957 * 2 ^ 14) 76"
proof -
  have X2: "round_b64 (4503599627375957 * 2 ^ 14 * axis_slope * (4503599627375957 * 2 ^ 14 * axis_slope)) =
      2251799813690709 / 2 ^ 13"
    using round_b64_nearest
      [of "- 14" "4503599627375957 * 2 ^ 14 * axis_slope * (4503599627375957 * 2 ^ 14 * axis_slope)"
          4503599627381418]
    by (simp add: axis_slope_def)
  have X2r: "round_b64 (2251799813690709 / 2 ^ 13) = 2251799813690709 / 2 ^ 13"
    using round_b64_nearest
      [of "- 14" "2251799813690709 / 2 ^ 13"
          4503599627381418]
    by simp
  have F: "round_b64 (2251799813690709 / 2 ^ 13 - 1) = 2251799813682517 / 2 ^ 13"
    using round_b64_nearest
      [of "- 15" "2251799813690709 / 2 ^ 13 - 1"
          9007199254730068]
    by simp
  have St: "round_b64 (2251799813682517 / 2 ^ 13 / (2 * (4503599627375957 * 2 ^ 14 * axis_slope * axis_slope))) =
      4503599627359573 * 2 ^ 13"
    using round_b64_nearest
      [of 12 "2251799813682517 / 2 ^ 13 / (2 * (4503599627375957 * 2 ^ 14 * axis_slope * axis_slope))"
          9007199254719146]
    by (simp add: axis_slope_def)
  have s': "round_b64 (4503599627375957 * 2 ^ 14 - 4503599627359573 * 2 ^ 13) =
      4503599627392341 * 2 ^ 13"
    using round_b64_nearest
      [of 13 "4503599627375957 * 2 ^ 14 - 4503599627359573 * 2 ^ 13"
          4503599627392341]
    by simp
  have G: "round_b64 (4503599627375957 * 2 ^ 14 - 4503599627371861 * 2 ^ 15) =
      - (4503599627367765 * 2 ^ 14)"
    using round_b64_nearest
      [of 13 "4503599627375957 * 2 ^ 14 - 4503599627371861 * 2 ^ 15"
          "- 9007199254735530"]
    by simp
  have guard: "tol round_b64 < \<bar>round_b64 (4503599627375957 * 2 ^ 14 - 4503599627371861 * 2 ^ 15)\<bar>"
    unfolding G tol_b64 by simp
  show ?thesis
    by (rule near_axis_pass
          [of "4503599627375957 * 2 ^ 14" 4503599627375957 14
              "2251799813690709 / 2 ^ 13" "2251799813682517 / 2 ^ 13"
              "4503599627359573 * 2 ^ 13" "4503599627392341 * 2 ^ 13"
              "4503599627371861 * 2 ^ 15" 75 76,
           OF _ _ _ _ X2 X2r F St s' guard])
       simp_all
qed

lemma near_axis_pass_77:
  "near_axis_from (4503599627392341 * 2 ^ 13) (4503599627375957 * 2 ^ 14) 76 =
   near_axis_from (4503599627457877 * 2 ^ 12) (4503599627392341 * 2 ^ 13) 77"
proof -
  have X2: "round_b64 (4503599627392341 * 2 ^ 13 * axis_slope * (4503599627392341 * 2 ^ 13 * axis_slope)) =
      2251799813707093 / 2 ^ 15"
    using round_b64_nearest
      [of "- 16" "4503599627392341 * 2 ^ 13 * axis_slope * (4503599627392341 * 2 ^ 13 * axis_slope)"
          4503599627414186]
    by (simp add: axis_slope_def)
  have X2r: "round_b64 (2251799813707093 / 2 ^ 15) = 2251799813707093 / 2 ^ 15"
    using round_b64_nearest
      [of "- 16" "2251799813707093 / 2 ^ 15"
          4503599627414186]
    by simp
  have F: "round_b64 (2251799813707093 / 2 ^ 15 - 1) = 2251799813674325 / 2 ^ 15"
    using round_b64_nearest
      [of "- 17" "2251799813707093 / 2 ^ 15 - 1"
          9007199254697300]
    by simp
  have St: "round_b64 (2251799813674325 / 2 ^ 15 / (2 * (4503599627392341 * 2 ^ 13 * axis_slope * axis_slope))) =
      4503599627326805 * 2 ^ 12"
    using round_b64_nearest
      [of 11 "2251799813674325 / 2 ^ 15 / (2 * (4503599627392341 * 2 ^ 13 * axis_slope * axis_slope))"
          9007199254653610]
    by (simp add: axis_slope_def)
  have s': "round_b64 (4503599627392341 * 2 ^ 13 - 4503599627326805 * 2 ^ 12) =
      4503599627457877 * 2 ^ 12"
    using round_b64_nearest
      [of 12 "4503599627392341 * 2 ^ 13 - 4503599627326805 * 2 ^ 12"
          4503599627457877]
    by simp
  have G: "round_b64 (4503599627392341 * 2 ^ 13 - 4503599627375957 * 2 ^ 14) =
      - (4503599627359573 * 2 ^ 13)"
    using round_b64_nearest
      [of 12 "4503599627392341 * 2 ^ 13 - 4503599627375957 * 2 ^ 14"
          "- 9007199254719146"]
    by simp
  have guard: "tol round_b64 < \<bar>round_b64 (4503599627392341 * 2 ^ 13 - 4503599627375957 * 2 ^ 14)\<bar>"
    unfolding G tol_b64 by simp
  show ?thesis
    by (rule near_axis_pass
          [of "4503599627392341 * 2 ^ 13" 4503599627392341 13
              "2251799813707093 / 2 ^ 15" "2251799813674325 / 2 ^ 15"
              "4503599627326805 * 2 ^ 12" "4503599627457877 * 2 ^ 12"
              "4503599627375957 * 2 ^ 14" 76 77,
           OF _ _ _ _ X2 X2r F St s' guard])
       simp_all
qed

lemma near_axis_pass_78:
  "near_axis_from (4503599627457877 * 2 ^ 12) (4503599627392341 * 2 ^ 13) 77 =
   near_axis_from (4503599627720021 * 2 ^ 11) (4503599627457877 * 2 ^ 12) 78"
proof -
  have X2: "round_b64 (4503599627457877 * 2 ^ 12 * axis_slope * (4503599627457877 * 2 ^ 12 * axis_slope)) =
      2251799813772629 / 2 ^ 17"
    using round_b64_nearest
      [of "- 18" "4503599627457877 * 2 ^ 12 * axis_slope * (4503599627457877 * 2 ^ 12 * axis_slope)"
          4503599627545258]
    by (simp add: axis_slope_def)
  have X2r: "round_b64 (2251799813772629 / 2 ^ 17) = 2251799813772629 / 2 ^ 17"
    using round_b64_nearest
      [of "- 18" "2251799813772629 / 2 ^ 17"
          4503599627545258]
    by simp
  have F: "round_b64 (2251799813772629 / 2 ^ 17 - 1) = 2251799813641557 / 2 ^ 17"
    using round_b64_nearest
      [of "- 19" "2251799813772629 / 2 ^ 17 - 1"
          9007199254566228]
    by simp
  have St: "round_b64 (2251799813641557 / 2 ^ 17 / (2 * (4503599627457877 * 2 ^ 12 * axis_slope * axis_slope))) =
      4503599627195733 * 2 ^ 11"
    using round_b64_nearest
      [of 10 "2251799813641557 / 2 ^ 17 / (2 * (4503599627457877 * 2 ^ 12 * axis_slope * axis_slope))"
          9007199254391466]
    by (simp add: axis_slope_def)
  have s': "round_b64 (4503599627457877 * 2 ^ 12 - 4503599627195733 * 2 ^ 11) =
      4503599627720021 * 2 ^ 11"
    using round_b64_nearest
      [of 11 "4503599627457877 * 2 ^ 12 - 4503599627195733 * 2 ^ 11"
          4503599627720021]
    by simp
  have G: "round_b64 (4503599627457877 * 2 ^ 12 - 4503599627392341 * 2 ^ 13) =
      - (4503599627326805 * 2 ^ 12)"
    using round_b64_nearest
      [of 11 "4503599627457877 * 2 ^ 12 - 4503599627392341 * 2 ^ 13"
          "- 9007199254653610"]
    by simp
  have guard: "tol round_b64 < \<bar>round_b64 (4503599627457877 * 2 ^ 12 - 4503599627392341 * 2 ^ 13)\<bar>"
    unfolding G tol_b64 by simp
  show ?thesis
    by (rule near_axis_pass
          [of "4503599627457877 * 2 ^ 12" 4503599627457877 12
              "2251799813772629 / 2 ^ 17" "2251799813641557 / 2 ^ 17"
              "4503599627195733 * 2 ^ 11" "4503599627720021 * 2 ^ 11"
              "4503599627392341 * 2 ^ 13" 77 78,
           OF _ _ _ _ X2 X2r F St s' guard])
       simp_all
qed

lemma near_axis_pass_79:
  "near_axis_from (4503599627720021 * 2 ^ 11) (4503599627457877 * 2 ^ 12) 78 =
   near_axis_from (4503599628768597 * 2 ^ 10) (4503599627720021 * 2 ^ 11) 79"
proof -
  have X2: "round_b64 (4503599627720021 * 2 ^ 11 * axis_slope * (4503599627720021 * 2 ^ 11 * axis_slope)) =
      2251799814034773 / 2 ^ 19"
    using round_b64_nearest
      [of "- 20" "4503599627720021 * 2 ^ 11 * axis_slope * (4503599627720021 * 2 ^ 11 * axis_slope)"
          4503599628069546]
    by (simp add: axis_slope_def)
  have X2r: "round_b64 (2251799814034773 / 2 ^ 19) = 2251799814034773 / 2 ^ 19"
    using round_b64_nearest
      [of "- 20" "2251799814034773 / 2 ^ 19"
          4503599628069546]
    by simp
  have F: "round_b64 (2251799814034773 / 2 ^ 19 - 1) = 2251799813510485 / 2 ^ 19"
    using round_b64_nearest
      [of "- 21" "2251799814034773 / 2 ^ 19 - 1"
          9007199254041940]
    by simp
  have St: "round_b64 (2251799813510485 / 2 ^ 19 / (2 * (4503599627720021 * 2 ^ 11 * axis_slope * axis_slope))) =
      4503599626671445 * 2 ^ 10"
    using round_b64_nearest
      [of 9 "2251799813510485 / 2 ^ 19 / (2 * (4503599627720021 * 2 ^ 11 * axis_slope * axis_slope))"
          9007199253342890]
    by (simp add: axis_slope_def)
  have s': "round_b64 (4503599627720021 * 2 ^ 11 - 4503599626671445 * 2 ^ 10) =
      4503599628768597 * 2 ^ 10"
    using round_b64_nearest
      [of 10 "4503599627720021 * 2 ^ 11 - 4503599626671445 * 2 ^ 10"
          4503599628768597]
    by simp
  have G: "round_b64 (4503599627720021 * 2 ^ 11 - 4503599627457877 * 2 ^ 12) =
      - (4503599627195733 * 2 ^ 11)"
    using round_b64_nearest
      [of 10 "4503599627720021 * 2 ^ 11 - 4503599627457877 * 2 ^ 12"
          "- 9007199254391466"]
    by simp
  have guard: "tol round_b64 < \<bar>round_b64 (4503599627720021 * 2 ^ 11 - 4503599627457877 * 2 ^ 12)\<bar>"
    unfolding G tol_b64 by simp
  show ?thesis
    by (rule near_axis_pass
          [of "4503599627720021 * 2 ^ 11" 4503599627720021 11
              "2251799814034773 / 2 ^ 19" "2251799813510485 / 2 ^ 19"
              "4503599626671445 * 2 ^ 10" "4503599628768597 * 2 ^ 10"
              "4503599627457877 * 2 ^ 12" 78 79,
           OF _ _ _ _ X2 X2r F St s' guard])
       simp_all
qed

lemma near_axis_pass_80:
  "near_axis_from (4503599628768597 * 2 ^ 10) (4503599627720021 * 2 ^ 11) 79 =
   near_axis_from (4503599632962901 * 2 ^ 9) (4503599628768597 * 2 ^ 10) 80"
proof -
  have X2: "round_b64 (4503599628768597 * 2 ^ 10 * axis_slope * (4503599628768597 * 2 ^ 10 * axis_slope)) =
      2251799815083349 / 2 ^ 21"
    using round_b64_nearest
      [of "- 22" "4503599628768597 * 2 ^ 10 * axis_slope * (4503599628768597 * 2 ^ 10 * axis_slope)"
          4503599630166698]
    by (simp add: axis_slope_def)
  have X2r: "round_b64 (2251799815083349 / 2 ^ 21) = 2251799815083349 / 2 ^ 21"
    using round_b64_nearest
      [of "- 22" "2251799815083349 / 2 ^ 21"
          4503599630166698]
    by simp
  have F: "round_b64 (2251799815083349 / 2 ^ 21 - 1) = 2251799812986197 / 2 ^ 21"
    using round_b64_nearest
      [of "- 23" "2251799815083349 / 2 ^ 21 - 1"
          9007199251944788]
    by simp
  have St: "round_b64 (2251799812986197 / 2 ^ 21 / (2 * (4503599628768597 * 2 ^ 10 * axis_slope * axis_slope))) =
      4503599624574293 * 2 ^ 9"
    using round_b64_nearest
      [of 8 "2251799812986197 / 2 ^ 21 / (2 * (4503599628768597 * 2 ^ 10 * axis_slope * axis_slope))"
          9007199249148586]
    by (simp add: axis_slope_def)
  have s': "round_b64 (4503599628768597 * 2 ^ 10 - 4503599624574293 * 2 ^ 9) =
      4503599632962901 * 2 ^ 9"
    using round_b64_nearest
      [of 9 "4503599628768597 * 2 ^ 10 - 4503599624574293 * 2 ^ 9"
          4503599632962901]
    by simp
  have G: "round_b64 (4503599628768597 * 2 ^ 10 - 4503599627720021 * 2 ^ 11) =
      - (4503599626671445 * 2 ^ 10)"
    using round_b64_nearest
      [of 9 "4503599628768597 * 2 ^ 10 - 4503599627720021 * 2 ^ 11"
          "- 9007199253342890"]
    by simp
  have guard: "tol round_b64 < \<bar>round_b64 (4503599628768597 * 2 ^ 10 - 4503599627720021 * 2 ^ 11)\<bar>"
    unfolding G tol_b64 by simp
  show ?thesis
    by (rule near_axis_pass
          [of "4503599628768597 * 2 ^ 10" 4503599628768597 10
              "2251799815083349 / 2 ^ 21" "2251799812986197 / 2 ^ 21"
              "4503599624574293 * 2 ^ 9" "4503599632962901 * 2 ^ 9"
              "4503599627720021 * 2 ^ 11" 79 80,
           OF _ _ _ _ X2 X2r F St s' guard])
       simp_all
qed

lemma near_axis_pass_81:
  "near_axis_from (4503599632962901 * 2 ^ 9) (4503599628768597 * 2 ^ 10) 80 =
   near_axis_from (4503599649740117 * 2 ^ 8) (4503599632962901 * 2 ^ 9) 81"
proof -
  have X2: "round_b64 (4503599632962901 * 2 ^ 9 * axis_slope * (4503599632962901 * 2 ^ 9 * axis_slope)) =
      2251799819277653 / 2 ^ 23"
    using round_b64_nearest
      [of "- 24" "4503599632962901 * 2 ^ 9 * axis_slope * (4503599632962901 * 2 ^ 9 * axis_slope)"
          4503599638555306]
    by (simp add: axis_slope_def)
  have X2r: "round_b64 (2251799819277653 / 2 ^ 23) = 2251799819277653 / 2 ^ 23"
    using round_b64_nearest
      [of "- 24" "2251799819277653 / 2 ^ 23"
          4503599638555306]
    by simp
  have F: "round_b64 (2251799819277653 / 2 ^ 23 - 1) = 2251799810889045 / 2 ^ 23"
    using round_b64_nearest
      [of "- 25" "2251799819277653 / 2 ^ 23 - 1"
          9007199243556180]
    by simp
  have St: "round_b64 (2251799810889045 / 2 ^ 23 / (2 * (4503599632962901 * 2 ^ 9 * axis_slope * axis_slope))) =
      4503599616185685 * 2 ^ 8"
    using round_b64_nearest
      [of 7 "2251799810889045 / 2 ^ 23 / (2 * (4503599632962901 * 2 ^ 9 * axis_slope * axis_slope))"
          9007199232371370]
    by (simp add: axis_slope_def)
  have s': "round_b64 (4503599632962901 * 2 ^ 9 - 4503599616185685 * 2 ^ 8) =
      4503599649740117 * 2 ^ 8"
    using round_b64_nearest
      [of 8 "4503599632962901 * 2 ^ 9 - 4503599616185685 * 2 ^ 8"
          4503599649740117]
    by simp
  have G: "round_b64 (4503599632962901 * 2 ^ 9 - 4503599628768597 * 2 ^ 10) =
      - (4503599624574293 * 2 ^ 9)"
    using round_b64_nearest
      [of 8 "4503599632962901 * 2 ^ 9 - 4503599628768597 * 2 ^ 10"
          "- 9007199249148586"]
    by simp
  have guard: "tol round_b64 < \<bar>round_b64 (4503599632962901 * 2 ^ 9 - 4503599628768597 * 2 ^ 10)\<bar>"
    unfolding G tol_b64 by simp
  show ?thesis
    by (rule near_axis_pass
          [of "4503599632962901 * 2 ^ 9" 4503599632962901 9
              "2251799819277653 / 2 ^ 23" "2251799810889045 / 2 ^ 23"
              "4503599616185685 * 2 ^ 8" "4503599649740117 * 2 ^ 8"
              "4503599628768597 * 2 ^ 10" 80 81,
           OF _ _ _ _ X2 X2r F St s' guard])
       simp_all
qed

lemma near_axis_pass_82:
  "near_axis_from (4503599649740117 * 2 ^ 8) (4503599632962901 * 2 ^ 9) 81 =
   near_axis_from (4503599716848981 * 2 ^ 7) (4503599649740117 * 2 ^ 8) 82"
proof -
  have X2: "round_b64 (4503599649740117 * 2 ^ 8 * axis_slope * (4503599649740117 * 2 ^ 8 * axis_slope)) =
      2251799836054869 / 2 ^ 25"
    using round_b64_nearest
      [of "- 26" "4503599649740117 * 2 ^ 8 * axis_slope * (4503599649740117 * 2 ^ 8 * axis_slope)"
          4503599672109738]
    by (simp add: axis_slope_def)
  have X2r: "round_b64 (2251799836054869 / 2 ^ 25) = 2251799836054869 / 2 ^ 25"
    using round_b64_nearest
      [of "- 26" "2251799836054869 / 2 ^ 25"
          4503599672109738]
    by simp
  have F: "round_b64 (2251799836054869 / 2 ^ 25 - 1) = 2251799802500437 / 2 ^ 25"
    using round_b64_nearest
      [of "- 27" "2251799836054869 / 2 ^ 25 - 1"
          9007199210001748]
    by simp
  have St: "round_b64 (2251799802500437 / 2 ^ 25 / (2 * (4503599649740117 * 2 ^ 8 * axis_slope * axis_slope))) =
      4503599582631253 * 2 ^ 7"
    using round_b64_nearest
      [of 6 "2251799802500437 / 2 ^ 25 / (2 * (4503599649740117 * 2 ^ 8 * axis_slope * axis_slope))"
          9007199165262506]
    by (simp add: axis_slope_def)
  have s': "round_b64 (4503599649740117 * 2 ^ 8 - 4503599582631253 * 2 ^ 7) =
      4503599716848981 * 2 ^ 7"
    using round_b64_nearest
      [of 7 "4503599649740117 * 2 ^ 8 - 4503599582631253 * 2 ^ 7"
          4503599716848981]
    by simp
  have G: "round_b64 (4503599649740117 * 2 ^ 8 - 4503599632962901 * 2 ^ 9) =
      - (4503599616185685 * 2 ^ 8)"
    using round_b64_nearest
      [of 7 "4503599649740117 * 2 ^ 8 - 4503599632962901 * 2 ^ 9"
          "- 9007199232371370"]
    by simp
  have guard: "tol round_b64 < \<bar>round_b64 (4503599649740117 * 2 ^ 8 - 4503599632962901 * 2 ^ 9)\<bar>"
    unfolding G tol_b64 by simp
  show ?thesis
    by (rule near_axis_pass
          [of "4503599649740117 * 2 ^ 8" 4503599649740117 8
              "2251799836054869 / 2 ^ 25" "2251799802500437 / 2 ^ 25"
              "4503599582631253 * 2 ^ 7" "4503599716848981 * 2 ^ 7"
              "4503599632962901 * 2 ^ 9" 81 82,
           OF _ _ _ _ X2 X2r F St s' guard])
       simp_all
qed

lemma near_axis_pass_83:
  "near_axis_from (4503599716848981 * 2 ^ 7) (4503599649740117 * 2 ^ 8) 82 =
   near_axis_from (281474999080277 * 2 ^ 10) (4503599716848981 * 2 ^ 7) 83"
proof -
  have X2: "round_b64 (4503599716848981 * 2 ^ 7 * axis_slope * (4503599716848981 * 2 ^ 7 * axis_slope)) =
      1125899951581867 / 2 ^ 26"
    using round_b64_nearest
      [of "- 28" "4503599716848981 * 2 ^ 7 * axis_slope * (4503599716848981 * 2 ^ 7 * axis_slope)"
          4503599806327468]
    by (simp add: axis_slope_def)
  have X2r: "round_b64 (1125899951581867 / 2 ^ 26) = 1125899951581867 / 2 ^ 26"
    using round_b64_nearest
      [of "- 28" "1125899951581867 / 2 ^ 26"
          4503599806327468]
    by simp
  have F: "round_b64 (1125899951581867 / 2 ^ 26 - 1) = 1125899884473003 / 2 ^ 26"
    using round_b64_nearest
      [of "- 29" "1125899951581867 / 2 ^ 26 - 1"
          9007199075784024]
    by simp
  have St: "round_b64 (1125899884473003 / 2 ^ 26 / (2 * (4503599716848981 * 2 ^ 7 * axis_slope * axis_slope))) =
      9007198896827061 * 2 ^ 5"
    using round_b64_nearest
      [of 5 "1125899884473003 / 2 ^ 26 / (2 * (4503599716848981 * 2 ^ 7 * axis_slope * axis_slope))"
          9007198896827061]
    by (simp add: axis_slope_def)
  have s': "round_b64 (4503599716848981 * 2 ^ 7 - 9007198896827061 * 2 ^ 5) =
      281474999080277 * 2 ^ 10"
    using round_b64_tie
      [of 6 "4503599716848981 * 2 ^ 7 - 9007198896827061 * 2 ^ 5"
          4503599985284432]
    by simp
  have G: "round_b64 (4503599716848981 * 2 ^ 7 - 4503599649740117 * 2 ^ 8) =
      - (4503599582631253 * 2 ^ 7)"
    using round_b64_nearest
      [of 6 "4503599716848981 * 2 ^ 7 - 4503599649740117 * 2 ^ 8"
          "- 9007199165262506"]
    by simp
  have guard: "tol round_b64 < \<bar>round_b64 (4503599716848981 * 2 ^ 7 - 4503599649740117 * 2 ^ 8)\<bar>"
    unfolding G tol_b64 by simp
  show ?thesis
    by (rule near_axis_pass
          [of "4503599716848981 * 2 ^ 7" 4503599716848981 7
              "1125899951581867 / 2 ^ 26" "1125899884473003 / 2 ^ 26"
              "9007198896827061 * 2 ^ 5" "281474999080277 * 2 ^ 10"
              "4503599649740117 * 2 ^ 8" 82 83,
           OF _ _ _ _ X2 X2r F St s' guard])
       simp_all
qed

lemma near_axis_pass_84:
  "near_axis_from (281474999080277 * 2 ^ 10) (4503599716848981 * 2 ^ 7) 83 =
   near_axis_from (4503601059026171 * 2 ^ 5) (281474999080277 * 2 ^ 10) 84"
proof -
  have X2: "round_b64 (281474999080277 * 2 ^ 10 * axis_slope * (281474999080277 * 2 ^ 10 * axis_slope)) =
      1125900085799599 / 2 ^ 28"
    using round_b64_nearest
      [of "- 30" "281474999080277 * 2 ^ 10 * axis_slope * (281474999080277 * 2 ^ 10 * axis_slope)"
          4503600343198396]
    by (simp add: axis_slope_def)
  have X2r: "round_b64 (1125900085799599 / 2 ^ 28) = 1125900085799599 / 2 ^ 28"
    using round_b64_nearest
      [of "- 30" "1125900085799599 / 2 ^ 28"
          4503600343198396]
    by simp
  have F: "round_b64 (1125900085799599 / 2 ^ 28 - 1) = 1125899817364143 / 2 ^ 28"
    using round_b64_nearest
      [of "- 31" "1125900085799599 / 2 ^ 28 - 1"
          9007198538913144]
    by simp
  have St: "round_b64 (1125899817364143 / 2 ^ 28 / (2 * (281474999080277 * 2 ^ 10 * axis_slope * axis_slope))) =
      4503598911542693 * 2 ^ 5"
    using round_b64_nearest
      [of 4 "1125899817364143 / 2 ^ 28 / (2 * (281474999080277 * 2 ^ 10 * axis_slope * axis_slope))"
          9007197823085386]
    by (simp add: axis_slope_def)
  have s': "round_b64 (281474999080277 * 2 ^ 10 - 4503598911542693 * 2 ^ 5) =
      4503601059026171 * 2 ^ 5"
    using round_b64_nearest
      [of 5 "281474999080277 * 2 ^ 10 - 4503598911542693 * 2 ^ 5"
          4503601059026171]
    by simp
  have G: "round_b64 (281474999080277 * 2 ^ 10 - 4503599716848981 * 2 ^ 7) =
      - (2251799724206765 * 2 ^ 7)"
    using round_b64_nearest
      [of 5 "281474999080277 * 2 ^ 10 - 4503599716848981 * 2 ^ 7"
          "- 9007198896827060"]
    by simp
  have guard: "tol round_b64 < \<bar>round_b64 (281474999080277 * 2 ^ 10 - 4503599716848981 * 2 ^ 7)\<bar>"
    unfolding G tol_b64 by simp
  show ?thesis
    by (rule near_axis_pass
          [of "281474999080277 * 2 ^ 10" 281474999080277 10
              "1125900085799599 / 2 ^ 28" "1125899817364143 / 2 ^ 28"
              "4503598911542693 * 2 ^ 5" "4503601059026171 * 2 ^ 5"
              "4503599716848981 * 2 ^ 7" 83 84,
           OF _ _ _ _ X2 X2r F St s' guard])
       simp_all
qed

lemma near_axis_pass_85:
  "near_axis_from (4503601059026171 * 2 ^ 5) (281474999080277 * 2 ^ 10) 84 =
   near_axis_from (2251802676996051 * 2 ^ 5) (4503601059026171 * 2 ^ 5) 85"
proof -
  have X2: "round_b64 (4503601059026171 * 2 ^ 5 * axis_slope * (4503601059026171 * 2 ^ 5 * axis_slope)) =
      4503602490682301 / 2 ^ 32"
    using round_b64_nearest
      [of "- 32" "4503601059026171 * 2 ^ 5 * axis_slope * (4503601059026171 * 2 ^ 5 * axis_slope)"
          4503602490682301]
    by (simp add: axis_slope_def)
  have X2r: "round_b64 (4503602490682301 / 2 ^ 32) = 4503602490682301 / 2 ^ 32"
    using round_b64_nearest
      [of "- 32" "4503602490682301 / 2 ^ 32"
          4503602490682301]
    by simp
  have F: "round_b64 (4503602490682301 / 2 ^ 32 - 1) = 4503598195715005 / 2 ^ 32"
    using round_b64_nearest
      [of "- 33" "4503602490682301 / 2 ^ 32 - 1"
          9007196391430010]
    by simp
  have St: "round_b64 (4503598195715005 / 2 ^ 32 / (2 * (4503601059026171 * 2 ^ 5 * axis_slope * axis_slope))) =
      281474797753765 * 2 ^ 8"
    using round_b64_nearest
      [of 3 "4503598195715005 / 2 ^ 32 / (2 * (4503601059026171 * 2 ^ 5 * axis_slope * axis_slope))"
          9007193528120480]
    by (simp add: axis_slope_def)
  have s': "round_b64 (4503601059026171 * 2 ^ 5 - 281474797753765 * 2 ^ 8) =
      2251802676996051 * 2 ^ 5"
    using round_b64_nearest
      [of 4 "4503601059026171 * 2 ^ 5 - 281474797753765 * 2 ^ 8"
          4503605353992102]
    by simp
  have G: "round_b64 (4503601059026171 * 2 ^ 5 - 281474999080277 * 2 ^ 10) =
      - (4503598911542693 * 2 ^ 5)"
    using round_b64_nearest
      [of 4 "4503601059026171 * 2 ^ 5 - 281474999080277 * 2 ^ 10"
          "- 9007197823085386"]
    by simp
  have guard: "tol round_b64 < \<bar>round_b64 (4503601059026171 * 2 ^ 5 - 281474999080277 * 2 ^ 10)\<bar>"
    unfolding G tol_b64 by simp
  show ?thesis
    by (rule near_axis_pass
          [of "4503601059026171 * 2 ^ 5" 4503601059026171 5
              "4503602490682301 / 2 ^ 32" "4503598195715005 / 2 ^ 32"
              "281474797753765 * 2 ^ 8" "2251802676996051 * 2 ^ 5"
              "281474999080277 * 2 ^ 10" 84 85,
           OF _ _ _ _ X2 X2r F St s' guard])
       simp_all
qed

lemma near_axis_pass_86:
  "near_axis_from (2251802676996051 * 2 ^ 5) (4503601059026171 * 2 ^ 5) 85 =
   near_axis_from (281476408364965 * 2 ^ 7) (2251802676996051 * 2 ^ 5) 86"
proof -
  have X2: "round_b64 (2251802676996051 * 2 ^ 5 * axis_slope * (2251802676996051 * 2 ^ 5 * axis_slope)) =
      2251805540310495 / 2 ^ 33"
    using round_b64_nearest
      [of "- 34" "2251802676996051 * 2 ^ 5 * axis_slope * (2251802676996051 * 2 ^ 5 * axis_slope)"
          4503611080620990]
    by (simp add: axis_slope_def)
  have X2r: "round_b64 (2251805540310495 / 2 ^ 33) = 2251805540310495 / 2 ^ 33"
    using round_b64_nearest
      [of "- 34" "2251805540310495 / 2 ^ 33"
          4503611080620990]
    by simp
  have F: "round_b64 (2251805540310495 / 2 ^ 33 - 1) = 2251796950375903 / 2 ^ 33"
    using round_b64_nearest
      [of "- 35" "2251805540310495 / 2 ^ 33 - 1"
          9007187801503612]
    by simp
  have St: "round_b64 (2251796950375903 / 2 ^ 33 / (2 * (2251802676996051 * 2 ^ 5 * axis_slope * axis_slope))) =
      9007176348289527 * 2 ^ 2"
    using round_b64_nearest
      [of 2 "2251796950375903 / 2 ^ 33 / (2 * (2251802676996051 * 2 ^ 5 * axis_slope * axis_slope))"
          9007176348289527]
    by (simp add: axis_slope_def)
  have s': "round_b64 (2251802676996051 * 2 ^ 5 - 9007176348289527 * 2 ^ 2) =
      281476408364965 * 2 ^ 7"
    using round_b64_tie
      [of 3 "2251802676996051 * 2 ^ 5 - 9007176348289527 * 2 ^ 2"
          4503622533839440]
    by simp
  have G: "round_b64 (2251802676996051 * 2 ^ 5 - 4503601059026171 * 2 ^ 5) =
      - (281474797753765 * 2 ^ 8)"
    using round_b64_nearest
      [of 3 "2251802676996051 * 2 ^ 5 - 4503601059026171 * 2 ^ 5"
          "- 9007193528120480"]
    by simp
  have guard: "tol round_b64 < \<bar>round_b64 (2251802676996051 * 2 ^ 5 - 4503601059026171 * 2 ^ 5)\<bar>"
    unfolding G tol_b64 by simp
  show ?thesis
    by (rule near_axis_pass
          [of "2251802676996051 * 2 ^ 5" 2251802676996051 5
              "2251805540310495 / 2 ^ 33" "2251796950375903 / 2 ^ 33"
              "9007176348289527 * 2 ^ 2" "281476408364965 * 2 ^ 7"
              "4503601059026171 * 2 ^ 5" 85 86,
           OF _ _ _ _ X2 X2r F St s' guard])
       simp_all
qed

lemma near_axis_pass_87:
  "near_axis_from (281476408364965 * 2 ^ 7) (2251802676996051 * 2 ^ 5) 86 =
   near_axis_from (4503691252966653 * 2 ^ 2) (281476408364965 * 2 ^ 7) 87"
proof -
  have X2: "round_b64 (281476408364965 * 2 ^ 7 * axis_slope * (281476408364965 * 2 ^ 7 * axis_slope)) =
      1125911360106223 / 2 ^ 34"
    using round_b64_nearest
      [of "- 36" "281476408364965 * 2 ^ 7 * axis_slope * (281476408364965 * 2 ^ 7 * axis_slope)"
          4503645440424892]
    by (simp add: axis_slope_def)
  have X2r: "round_b64 (1125911360106223 / 2 ^ 34) = 1125911360106223 / 2 ^ 34"
    using round_b64_nearest
      [of "- 36" "1125911360106223 / 2 ^ 34"
          4503645440424892]
    by simp
  have F: "round_b64 (1125911360106223 / 2 ^ 34 - 1) = 1125894180237039 / 2 ^ 34"
    using round_b64_nearest
      [of "- 37" "1125911360106223 / 2 ^ 34 - 1"
          9007153441896312]
    by simp
  have St: "round_b64 (1125894180237039 / 2 ^ 34 / (2 * (281476408364965 * 2 ^ 7 * axis_slope * axis_slope))) =
      4503553814712227 * 2 ^ 2"
    using round_b64_nearest
      [of 1 "1125894180237039 / 2 ^ 34 / (2 * (281476408364965 * 2 ^ 7 * axis_slope * axis_slope))"
          9007107629424454]
    by (simp add: axis_slope_def)
  have s': "round_b64 (281476408364965 * 2 ^ 7 - 4503553814712227 * 2 ^ 2) =
      4503691252966653 * 2 ^ 2"
    using round_b64_nearest
      [of 2 "281476408364965 * 2 ^ 7 - 4503553814712227 * 2 ^ 2"
          4503691252966653]
    by simp
  have G: "round_b64 (281476408364965 * 2 ^ 7 - 2251802676996051 * 2 ^ 5) =
      - (1125897043536191 * 2 ^ 5)"
    using round_b64_nearest
      [of 2 "281476408364965 * 2 ^ 7 - 2251802676996051 * 2 ^ 5"
          "- 9007176348289528"]
    by simp
  have guard: "tol round_b64 < \<bar>round_b64 (281476408364965 * 2 ^ 7 - 2251802676996051 * 2 ^ 5)\<bar>"
    unfolding G tol_b64 by simp
  show ?thesis
    by (rule near_axis_pass
          [of "281476408364965 * 2 ^ 7" 281476408364965 7
              "1125911360106223 / 2 ^ 34" "1125894180237039 / 2 ^ 34"
              "4503553814712227 * 2 ^ 2" "4503691252966653 * 2 ^ 2"
              "2251802676996051 * 2 ^ 5" 86 87,
           OF _ _ _ _ X2 X2r F St s' guard])
       simp_all
qed

lemma near_axis_pass_88:
  "near_axis_from (4503691252966653 * 2 ^ 2) (281476408364965 * 2 ^ 7) 87 =
   near_axis_from (281497882830083 * 2 ^ 5) (4503691252966653 * 2 ^ 2) 88"
proof -
  have X2: "round_b64 (4503691252966653 * 2 ^ 2 * axis_slope * (4503691252966653 * 2 ^ 2 * axis_slope)) =
      2251891440213465 / 2 ^ 37"
    using round_b64_nearest
      [of "- 38" "4503691252966653 * 2 ^ 2 * axis_slope * (4503691252966653 * 2 ^ 2 * axis_slope)"
          4503782880426930]
    by (simp add: axis_slope_def)
  have X2r: "round_b64 (2251891440213465 / 2 ^ 37) = 2251891440213465 / 2 ^ 37"
    using round_b64_nearest
      [of "- 38" "2251891440213465 / 2 ^ 37"
          4503782880426930]
    by simp
  have F: "round_b64 (2251891440213465 / 2 ^ 37 - 1) = 2251754001259993 / 2 ^ 37"
    using round_b64_nearest
      [of "- 39" "2251891440213465 / 2 ^ 37 - 1"
          9007016005039972]
    by simp
  have St: "round_b64 (2251754001259993 / 2 ^ 37 / (2 * (4503691252966653 * 2 ^ 2 * axis_slope * axis_slope))) =
      9006832761303956"
    using round_b64_nearest
      [of 0 "2251754001259993 / 2 ^ 37 / (2 * (4503691252966653 * 2 ^ 2 * axis_slope * axis_slope))"
          9006832761303956]
    by (simp add: axis_slope_def)
  have s': "round_b64 (4503691252966653 * 2 ^ 2 - 9006832761303956) = 281497882830083 * 2 ^ 5"
    using round_b64_nearest
      [of 1 "4503691252966653 * 2 ^ 2 - 9006832761303956"
          4503966125281328]
    by simp
  have G: "round_b64 (4503691252966653 * 2 ^ 2 - 281476408364965 * 2 ^ 7) =
      - (4503553814712227 * 2 ^ 2)"
    using round_b64_nearest
      [of 1 "4503691252966653 * 2 ^ 2 - 281476408364965 * 2 ^ 7"
          "- 9007107629424454"]
    by simp
  have guard: "tol round_b64 < \<bar>round_b64 (4503691252966653 * 2 ^ 2 - 281476408364965 * 2 ^ 7)\<bar>"
    unfolding G tol_b64 by simp
  show ?thesis
    by (rule near_axis_pass
          [of "4503691252966653 * 2 ^ 2" 4503691252966653 2
              "2251891440213465 / 2 ^ 37" "2251754001259993 / 2 ^ 37"
              "9006832761303956" "281497882830083 * 2 ^ 5"
              "281476408364965 * 2 ^ 7" 87 88,
           OF _ _ _ _ X2 X2r F St s' guard])
       simp_all
qed

lemma near_axis_pass_89:
  "near_axis_from (281497882830083 * 2 ^ 5) (4503691252966653 * 2 ^ 2) 88 =
   near_axis_from (4505065547439356) (281497882830083 * 2 ^ 5) 89"
proof -
  have X2: "round_b64 (281497882830083 * 2 ^ 5 * axis_slope * (281497882830083 * 2 ^ 5 * axis_slope)) =
      4504332653017351 / 2 ^ 40"
    using round_b64_nearest
      [of "- 40" "281497882830083 * 2 ^ 5 * axis_slope * (281497882830083 * 2 ^ 5 * axis_slope)"
          4504332653017351]
    by (simp add: axis_slope_def)
  have X2r: "round_b64 (4504332653017351 / 2 ^ 40) = 4504332653017351 / 2 ^ 40"
    using round_b64_nearest
      [of "- 40" "4504332653017351 / 2 ^ 40"
          4504332653017351]
    by simp
  have F: "round_b64 (4504332653017351 / 2 ^ 40 - 1) = 4503233141389575 / 2 ^ 40"
    using round_b64_nearest
      [of "- 41" "4504332653017351 / 2 ^ 40 - 1"
          9006466282779150]
    by simp
  have St: "round_b64 (4503233141389575 / 2 ^ 40 / (2 * (281497882830083 * 2 ^ 5 * axis_slope * axis_slope))) =
      4502866703123300"
    using round_b64_nearest
      [of "- 1" "4503233141389575 / 2 ^ 40 / (2 * (281497882830083 * 2 ^ 5 * axis_slope * axis_slope))"
          9005733406246600]
    by (simp add: axis_slope_def)
  have s': "round_b64 (281497882830083 * 2 ^ 5 - 4502866703123300) = 4505065547439356"
    using round_b64_nearest
      [of 0 "281497882830083 * 2 ^ 5 - 4502866703123300"
          4505065547439356]
    by simp
  have G: "round_b64 (281497882830083 * 2 ^ 5 - 4503691252966653 * 2 ^ 2) = - 9006832761303956"
    using round_b64_nearest
      [of 0 "281497882830083 * 2 ^ 5 - 4503691252966653 * 2 ^ 2"
          "- 9006832761303956"]
    by simp
  have guard: "tol round_b64 < \<bar>round_b64 (281497882830083 * 2 ^ 5 - 4503691252966653 * 2 ^ 2)\<bar>"
    unfolding G tol_b64 by simp
  show ?thesis
    by (rule near_axis_pass
          [of "281497882830083 * 2 ^ 5" 281497882830083 5
              "4504332653017351 / 2 ^ 40" "4503233141389575 / 2 ^ 40"
              "4502866703123300" "4505065547439356"
              "4503691252966653 * 2 ^ 2" 88 89,
           OF _ _ _ _ X2 X2r F St s' guard])
       simp_all
qed

lemma near_axis_pass_90:
  "near_axis_from (4505065547439356) (281497882830083 * 2 ^ 5) 89 =
   near_axis_from (2254731081426857) (4505065547439356) 90"
proof -
  have X2: "round_b64 (4505065547439356 * axis_slope * (4505065547439356 * axis_slope)) =
      2253265972332337 / 2 ^ 41"
    using round_b64_nearest
      [of "- 42" "4505065547439356 * axis_slope * (4505065547439356 * axis_slope)"
          4506531944664674]
    by (simp add: axis_slope_def)
  have X2r: "round_b64 (2253265972332337 / 2 ^ 41) = 2253265972332337 / 2 ^ 41"
    using round_b64_nearest
      [of "- 42" "2253265972332337 / 2 ^ 41"
          4506531944664674]
    by simp
  have F: "round_b64 (2253265972332337 / 2 ^ 41 - 1) = 2251066949076785 / 2 ^ 41"
    using round_b64_nearest
      [of "- 43" "2253265972332337 / 2 ^ 41 - 1"
          9004267796307140]
    by simp
  have St: "round_b64 (2251066949076785 / 2 ^ 41 / (2 * (4505065547439356 * axis_slope * axis_slope))) =
      9001337864049995 / 2 ^ 2"
    using round_b64_nearest
      [of "- 2" "2251066949076785 / 2 ^ 41 / (2 * (4505065547439356 * axis_slope * axis_slope))"
          9001337864049995]
    by (simp add: axis_slope_def)
  have s': "round_b64 (4505065547439356 - 9001337864049995 / 2 ^ 2) = 2254731081426857"
    using round_b64_tie
      [of "- 1" "4505065547439356 - 9001337864049995 / 2 ^ 2"
          4509462162853714]
    by simp
  have G: "round_b64 (4505065547439356 - 281497882830083 * 2 ^ 5) = - 4502866703123300"
    using round_b64_nearest
      [of "- 1" "4505065547439356 - 281497882830083 * 2 ^ 5"
          "- 9005733406246600"]
    by simp
  have guard: "tol round_b64 < \<bar>round_b64 (4505065547439356 - 281497882830083 * 2 ^ 5)\<bar>"
    unfolding G tol_b64 by simp
  show ?thesis
    by (rule near_axis_pass
          [of "4505065547439356" 1126266386859839 2
              "2253265972332337 / 2 ^ 41" "2251066949076785 / 2 ^ 41"
              "9001337864049995 / 2 ^ 2" "2254731081426857"
              "281497882830083 * 2 ^ 5" 89 90,
           OF _ _ _ _ X2 X2r F St s' guard])
       simp_all
qed

lemma near_axis_pass_91:
  "near_axis_from (2254731081426857) (4505065547439356) 90 =
   near_axis_from (2263515739070389 / 2) (2254731081426857) 91"
proof -
  have X2: "round_b64 (2254731081426857 * axis_slope * (2254731081426857 * axis_slope)) =
      2257666164929761 / 2 ^ 43"
    using round_b64_nearest
      [of "- 44" "2254731081426857 * axis_slope * (2254731081426857 * axis_slope)"
          4515332329859522]
    by (simp add: axis_slope_def)
  have X2r: "round_b64 (2257666164929761 / 2 ^ 43) = 2257666164929761 / 2 ^ 43"
    using round_b64_nearest
      [of "- 44" "2257666164929761 / 2 ^ 43"
          4515332329859522]
    by simp
  have F: "round_b64 (2257666164929761 / 2 ^ 43 - 1) = 2248870071907553 / 2 ^ 43"
    using round_b64_nearest
      [of "- 45" "2257666164929761 / 2 ^ 43 - 1"
          8995480287630212]
    by simp
  have St: "round_b64 (2248870071907553 / 2 ^ 43 / (2 * (2254731081426857 * axis_slope * axis_slope))) =
      8983785695133299 / 2 ^ 3"
    using round_b64_nearest
      [of "- 3" "2248870071907553 / 2 ^ 43 / (2 * (2254731081426857 * axis_slope * axis_slope))"
          8983785695133299]
    by (simp add: axis_slope_def)
  have s': "round_b64 (2254731081426857 - 8983785695133299 / 2 ^ 3) = 2263515739070389 / 2"
    using round_b64_tie
      [of "- 2" "2254731081426857 - 8983785695133299 / 2 ^ 3"
          4527031478140778]
    by simp
  have G: "round_b64 (2254731081426857 - 4505065547439356) = - 2250334466012499"
    using round_b64_nearest
      [of "- 2" "2254731081426857 - 4505065547439356"
          "- 9001337864049996"]
    by simp
  have guard: "tol round_b64 < \<bar>round_b64 (2254731081426857 - 4505065547439356)\<bar>"
    unfolding G tol_b64 by simp
  show ?thesis
    by (rule near_axis_pass
          [of "2254731081426857" 2254731081426857 0
              "2257666164929761 / 2 ^ 43" "2248870071907553 / 2 ^ 43"
              "8983785695133299 / 2 ^ 3" "2263515739070389 / 2"
              "4505065547439356" 90 91,
           OF _ _ _ _ X2 X2r F St s' guard])
       simp_all
qed

lemma near_axis_pass_92:
  "near_axis_from (2263515739070389 / 2) (2254731081426857) 91 =
   near_axis_from (4597035994695899 / 2 ^ 3) (2263515739070389 / 2) 92"
proof -
  have X2: "round_b64 (2263515739070389 / 2 * axis_slope * (2263515739070389 / 2 * axis_slope)) =
      2275292621431721 / 2 ^ 45"
    using round_b64_nearest
      [of "- 46" "2263515739070389 / 2 * axis_slope * (2263515739070389 / 2 * axis_slope)"
          4550585242863442]
    by (simp add: axis_slope_def)
  have X2r: "round_b64 (2275292621431721 / 2 ^ 45) = 2275292621431721 / 2 ^ 45"
    using round_b64_nearest
      [of "- 46" "2275292621431721 / 2 ^ 45"
          4550585242863442]
    by simp
  have F: "round_b64 (2275292621431721 / 2 ^ 45 - 1) = 2240108249342889 / 2 ^ 45"
    using round_b64_nearest
      [of "- 47" "2275292621431721 / 2 ^ 45 - 1"
          8960432997371556]
    by simp
  have St: "round_b64 (2240108249342889 / 2 ^ 45 / (2 * (2263515739070389 / 2 * axis_slope * axis_slope))) =
      4457026961585657 / 2 ^ 3"
    using round_b64_nearest
      [of "- 4" "2240108249342889 / 2 ^ 45 / (2 * (2263515739070389 / 2 * axis_slope * axis_slope))"
          8914053923171314]
    by (simp add: axis_slope_def)
  have s': "round_b64 (2263515739070389 / 2 - 4457026961585657 / 2 ^ 3) =
      4597035994695899 / 2 ^ 3"
    using round_b64_nearest
      [of "- 3" "2263515739070389 / 2 - 4457026961585657 / 2 ^ 3"
          4597035994695899]
    by simp
  have G: "round_b64 (2263515739070389 / 2 - 2254731081426857) = - (2245946423783325 / 2)"
    using round_b64_nearest
      [of "- 3" "2263515739070389 / 2 - 2254731081426857"
          "- 8983785695133300"]
    by simp
  have guard: "tol round_b64 < \<bar>round_b64 (2263515739070389 / 2 - 2254731081426857)\<bar>"
    unfolding G tol_b64 by simp
  show ?thesis
    by (rule near_axis_pass
          [of "2263515739070389 / 2" 2263515739070389 "- 1"
              "2275292621431721 / 2 ^ 45" "2240108249342889 / 2 ^ 45"
              "4457026961585657 / 2 ^ 3" "4597035994695899 / 2 ^ 3"
              "2254731081426857" 91 92,
           OF _ _ _ _ X2 X2r F St s' guard])
       simp_all
qed

lemma near_axis_pass_93:
  "near_axis_from (4597035994695899 / 2 ^ 3) (2263515739070389 / 2) 92 =
   near_axis_from (304549368367516) (4597035994695899 / 2 ^ 3) 93"
proof -
  have X2: "round_b64 (4597035994695899 / 2 ^ 3 * axis_slope * (4597035994695899 / 2 ^ 3 * axis_slope)) =
      4692410890190171 / 2 ^ 48"
    using round_b64_nearest
      [of "- 48" "4597035994695899 / 2 ^ 3 * axis_slope * (4597035994695899 / 2 ^ 3 * axis_slope)"
          4692410890190171]
    by (simp add: axis_slope_def)
  have X2r: "round_b64 (4692410890190171 / 2 ^ 48) = 4692410890190171 / 2 ^ 48"
    using round_b64_nearest
      [of "- 48" "4692410890190171 / 2 ^ 48"
          4692410890190171]
    by simp
  have F: "round_b64 (4692410890190171 / 2 ^ 48 - 1) = 4410935913479515 / 2 ^ 48"
    using round_b64_nearest
      [of "- 49" "4692410890190171 / 2 ^ 48 - 1"
          8821871826959030]
    by simp
  have St: "round_b64 (4410935913479515 / 2 ^ 48 / (2 * (4597035994695899 / 2 ^ 3 * axis_slope * axis_slope))) =
      8642564191023085 / 2 ^ 5"
    using round_b64_nearest
      [of "- 5" "4410935913479515 / 2 ^ 48 / (2 * (4597035994695899 / 2 ^ 3 * axis_slope * axis_slope))"
          8642564191023085]
    by (simp add: axis_slope_def)
  have s': "round_b64 (4597035994695899 / 2 ^ 3 - 8642564191023085 / 2 ^ 5) = 304549368367516"
    using round_b64_tie
      [of "- 4" "4597035994695899 / 2 ^ 3 - 8642564191023085 / 2 ^ 5"
          4872789893880256]
    by simp
  have G: "round_b64 (4597035994695899 / 2 ^ 3 - 2263515739070389 / 2) =
      - (4457026961585657 / 2 ^ 3)"
    using round_b64_nearest
      [of "- 4" "4597035994695899 / 2 ^ 3 - 2263515739070389 / 2"
          "- 8914053923171314"]
    by simp
  have guard: "tol round_b64 < \<bar>round_b64 (4597035994695899 / 2 ^ 3 - 2263515739070389 / 2)\<bar>"
    unfolding G tol_b64 by simp
  show ?thesis
    by (rule near_axis_pass
          [of "4597035994695899 / 2 ^ 3" 4597035994695899 "- 3"
              "4692410890190171 / 2 ^ 48" "4410935913479515 / 2 ^ 48"
              "8642564191023085 / 2 ^ 5" "304549368367516"
              "2263515739070389 / 2" 92 93,
           OF _ _ _ _ X2 X2r F St s' guard])
       simp_all
qed

lemma near_axis_pass_94:
  "near_axis_from (304549368367516) (4597035994695899 / 2 ^ 3) 93 =
   near_axis_from (2956692611249551 / 2 ^ 4) (304549368367516) 94"
proof -
  have X2: "round_b64 (304549368367516 * axis_slope * (304549368367516 * axis_slope)) =
      5272245162646695 / 2 ^ 50"
    using round_b64_nearest
      [of "- 50" "304549368367516 * axis_slope * (304549368367516 * axis_slope)"
          5272245162646695]
    by (simp add: axis_slope_def)
  have X2r: "round_b64 (5272245162646695 / 2 ^ 50) = 5272245162646695 / 2 ^ 50"
    using round_b64_nearest
      [of "- 50" "5272245162646695 / 2 ^ 50"
          5272245162646695]
    by simp
  have F: "round_b64 (5272245162646695 / 2 ^ 50 - 1) = 4146345255804071 / 2 ^ 50"
    using round_b64_nearest
      [of "- 51" "5272245162646695 / 2 ^ 50 - 1"
          8292690511608142]
    by simp
  have St: "round_b64 (4146345255804071 / 2 ^ 50 / (2 * (304549368367516 * axis_slope * axis_slope))) =
      7664389130522819 / 2 ^ 6"
    using round_b64_nearest
      [of "- 6" "4146345255804071 / 2 ^ 50 / (2 * (304549368367516 * axis_slope * axis_slope))"
          7664389130522819]
    by (simp add: axis_slope_def)
  have s': "round_b64 (304549368367516 - 7664389130522819 / 2 ^ 6) = 2956692611249551 / 2 ^ 4"
    using round_b64_tie
      [of "- 5" "304549368367516 - 7664389130522819 / 2 ^ 6"
          5913385222499102]
    by simp
  have G: "round_b64 (304549368367516 - 4597035994695899 / 2 ^ 3) = - (2160641047755771 / 2 ^ 3)"
    using round_b64_nearest
      [of "- 5" "304549368367516 - 4597035994695899 / 2 ^ 3"
          "- 8642564191023084"]
    by simp
  have guard: "tol round_b64 < \<bar>round_b64 (304549368367516 - 4597035994695899 / 2 ^ 3)\<bar>"
    unfolding G tol_b64 by simp
  show ?thesis
    by (rule near_axis_pass
          [of "304549368367516" 76137342091879 2
              "5272245162646695 / 2 ^ 50" "4146345255804071 / 2 ^ 50"
              "7664389130522819 / 2 ^ 6" "2956692611249551 / 2 ^ 4"
              "4597035994695899 / 2 ^ 3" 93 94,
           OF _ _ _ _ X2 X2r F St s' guard])
       simp_all
qed

lemma near_axis_pass_95:
  "near_axis_from (2956692611249551 / 2 ^ 4) (304549368367516) 94 =
   near_axis_from (1167912547433629 / 2 ^ 3) (2956692611249551 / 2 ^ 4) 95"
proof -
  have X2: "round_b64 (2956692611249551 / 2 ^ 4 * axis_slope * (2956692611249551 / 2 ^ 4 * axis_slope)) =
      1941120863472909 / 2 ^ 50"
    using round_b64_nearest
      [of "- 52" "2956692611249551 / 2 ^ 4 * axis_slope * (2956692611249551 / 2 ^ 4 * axis_slope)"
          7764483453891636]
    by (simp add: axis_slope_def)
  have X2r: "round_b64 (1941120863472909 / 2 ^ 50) = 1941120863472909 / 2 ^ 50"
    using round_b64_nearest
      [of "- 52" "1941120863472909 / 2 ^ 50"
          7764483453891636]
    by simp
  have F: "round_b64 (1941120863472909 / 2 ^ 50 - 1) = 815220956630285 / 2 ^ 50"
    using round_b64_nearest
      [of "- 53" "1941120863472909 / 2 ^ 50 - 1"
          6521767653042280]
    by simp
  have St: "round_b64 (815220956630285 / 2 ^ 50 / (2 * (2956692611249551 / 2 ^ 4 * axis_slope * axis_slope))) =
      620867516382293 / 2 ^ 4"
    using round_b64_nearest
      [of "- 7" "815220956630285 / 2 ^ 50 / (2 * (2956692611249551 / 2 ^ 4 * axis_slope * axis_slope))"
          4966940131058344]
    by (simp add: axis_slope_def)
  have s': "round_b64 (2956692611249551 / 2 ^ 4 - 620867516382293 / 2 ^ 4) =
      1167912547433629 / 2 ^ 3"
    using round_b64_nearest
      [of "- 5" "2956692611249551 / 2 ^ 4 - 620867516382293 / 2 ^ 4"
          4671650189734516]
    by simp
  have G: "round_b64 (2956692611249551 / 2 ^ 4 - 304549368367516) = - (1916097282630705 / 2 ^ 4)"
    using round_b64_nearest
      [of "- 6" "2956692611249551 / 2 ^ 4 - 304549368367516"
          "- 7664389130522820"]
    by simp
  have guard: "tol round_b64 < \<bar>round_b64 (2956692611249551 / 2 ^ 4 - 304549368367516)\<bar>"
    unfolding G tol_b64 by simp
  show ?thesis
    by (rule near_axis_pass
          [of "2956692611249551 / 2 ^ 4" 2956692611249551 "- 4"
              "1941120863472909 / 2 ^ 50" "815220956630285 / 2 ^ 50"
              "620867516382293 / 2 ^ 4" "1167912547433629 / 2 ^ 3"
              "304549368367516" 94 95,
           OF _ _ _ _ X2 X2r F St s' guard])
       simp_all
qed

lemma near_axis_pass_96:
  "near_axis_from (1167912547433629 / 2 ^ 3) (2956692611249551 / 2 ^ 4) 95 =
   near_axis_from (4506622220069423 / 2 ^ 5) (1167912547433629 / 2 ^ 3) 96"
proof -
  have X2: "round_b64 (1167912547433629 / 2 ^ 3 * axis_slope * (1167912547433629 / 2 ^ 3 * axis_slope)) =
      4845971511901257 / 2 ^ 52"
    using round_b64_nearest
      [of "- 52" "1167912547433629 / 2 ^ 3 * axis_slope * (1167912547433629 / 2 ^ 3 * axis_slope)"
          4845971511901257]
    by (simp add: axis_slope_def)
  have X2r: "round_b64 (4845971511901257 / 2 ^ 52) = 4845971511901257 / 2 ^ 52"
    using round_b64_nearest
      [of "- 52" "4845971511901257 / 2 ^ 52"
          4845971511901257]
    by simp
  have F: "round_b64 (4845971511901257 / 2 ^ 52 - 1) = 342371884530761 / 2 ^ 52"
    using round_b64_nearest
      [of "- 56" "4845971511901257 / 2 ^ 52 - 1"
          5477950152492176]
    by simp
  have St: "round_b64 (342371884530761 / 2 ^ 52 / (2 * (1167912547433629 / 2 ^ 3 * axis_slope * axis_slope))) =
      660111878660373 / 2 ^ 7"
    using round_b64_nearest
      [of "- 10" "342371884530761 / 2 ^ 52 / (2 * (1167912547433629 / 2 ^ 3 * axis_slope * axis_slope))"
          5280895029282984]
    by (simp add: axis_slope_def)
  have s': "round_b64 (1167912547433629 / 2 ^ 3 - 660111878660373 / 2 ^ 7) =
      4506622220069423 / 2 ^ 5"
    using round_b64_nearest
      [of "- 5" "1167912547433629 / 2 ^ 3 - 660111878660373 / 2 ^ 7"
          4506622220069423]
    by simp
  have G: "round_b64 (1167912547433629 / 2 ^ 3 - 2956692611249551 / 2 ^ 4) =
      - (620867516382293 / 2 ^ 4)"
    using round_b64_nearest
      [of "- 7" "1167912547433629 / 2 ^ 3 - 2956692611249551 / 2 ^ 4"
          "- 4966940131058344"]
    by simp
  have guard: "tol round_b64 < \<bar>round_b64 (1167912547433629 / 2 ^ 3 - 2956692611249551 / 2 ^ 4)\<bar>"
    unfolding G tol_b64 by simp
  show ?thesis
    by (rule near_axis_pass
          [of "1167912547433629 / 2 ^ 3" 1167912547433629 "- 3"
              "4845971511901257 / 2 ^ 52" "342371884530761 / 2 ^ 52"
              "660111878660373 / 2 ^ 7" "4506622220069423 / 2 ^ 5"
              "2956692611249551 / 2 ^ 4" 95 96,
           OF _ _ _ _ X2 X2r F St s' guard])
       simp_all
qed

lemma near_axis_pass_97:
  "near_axis_from (4506622220069423 / 2 ^ 5) (1167912547433629 / 2 ^ 3) 96 =
   near_axis_from (562950080124669 / 2 ^ 2) (4506622220069423 / 2 ^ 5) 97"
proof -
  have X2: "round_b64 (4506622220069423 / 2 ^ 5 * axis_slope * (4506622220069423 / 2 ^ 5 * axis_slope)) =
      2254823420691327 / 2 ^ 51"
    using round_b64_nearest
      [of "- 52" "4506622220069423 / 2 ^ 5 * axis_slope * (4506622220069423 / 2 ^ 5 * axis_slope)"
          4509646841382654]
    by (simp add: axis_slope_def)
  have X2r: "round_b64 (2254823420691327 / 2 ^ 51) = 2254823420691327 / 2 ^ 51"
    using round_b64_nearest
      [of "- 52" "2254823420691327 / 2 ^ 51"
          4509646841382654]
    by simp
  have F: "round_b64 (2254823420691327 / 2 ^ 51 - 1) = 3023607006079 / 2 ^ 51"
    using round_b64_nearest
      [of "- 62" "2254823420691327 / 2 ^ 51 - 1"
          6192347148449792]
    by simp
  have St: "round_b64 (3023607006079 / 2 ^ 51 / (2 * (4506622220069423 / 2 ^ 5 * axis_slope * axis_slope))) =
      6188193939601539 / 2 ^ 16"
    using round_b64_nearest
      [of "- 16" "3023607006079 / 2 ^ 51 / (2 * (4506622220069423 / 2 ^ 5 * axis_slope * axis_slope))"
          6188193939601539]
    by (simp add: axis_slope_def)
  have s': "round_b64 (4506622220069423 / 2 ^ 5 - 6188193939601539 / 2 ^ 16) =
      562950080124669 / 2 ^ 2"
    using round_b64_nearest
      [of "- 5" "4506622220069423 / 2 ^ 5 - 6188193939601539 / 2 ^ 16"
          4503600640997352]
    by simp
  have G: "round_b64 (4506622220069423 / 2 ^ 5 - 1167912547433629 / 2 ^ 3) =
      - (165027969665093 / 2 ^ 5)"
    using round_b64_nearest
      [of "- 10" "4506622220069423 / 2 ^ 5 - 1167912547433629 / 2 ^ 3"
          "- 5280895029282976"]
    by simp
  have guard: "tol round_b64 < \<bar>round_b64 (4506622220069423 / 2 ^ 5 - 1167912547433629 / 2 ^ 3)\<bar>"
    unfolding G tol_b64 by simp
  show ?thesis
    by (rule near_axis_pass
          [of "4506622220069423 / 2 ^ 5" 4506622220069423 "- 5"
              "2254823420691327 / 2 ^ 51" "3023607006079 / 2 ^ 51"
              "6188193939601539 / 2 ^ 16" "562950080124669 / 2 ^ 2"
              "1167912547433629 / 2 ^ 3" 96 97,
           OF _ _ _ _ X2 X2r F St s' guard])
       simp_all
qed

lemma near_axis_pass_98:
  "near_axis_from (562950080124669 / 2 ^ 2) (4506622220069423 / 2 ^ 5) 97 =
   near_axis_from (2251799813685305 / 2 ^ 4) (562950080124669 / 2 ^ 2) 98"
proof -
  have X2: "round_b64 (562950080124669 / 2 ^ 2 * axis_slope * (562950080124669 / 2 ^ 2 * axis_slope)) =
      1125900413656109 / 2 ^ 50"
    using round_b64_nearest
      [of "- 52" "562950080124669 / 2 ^ 2 * axis_slope * (562950080124669 / 2 ^ 2 * axis_slope)"
          4503601654624436]
    by (simp add: axis_slope_def)
  have X2r: "round_b64 (1125900413656109 / 2 ^ 50) = 1125900413656109 / 2 ^ 50"
    using round_b64_nearest
      [of "- 52" "1125900413656109 / 2 ^ 50"
          4503601654624436]
    by simp
  have F: "round_b64 (1125900413656109 / 2 ^ 50 - 1) = 506813485 / 2 ^ 50"
    using round_b64_nearest
      [of "- 74" "1125900413656109 / 2 ^ 50 - 1"
          8502919309557760]
    by simp
  have St: "round_b64 (506813485 / 2 ^ 50 / (2 * (562950080124669 / 2 ^ 2 * axis_slope * axis_slope))) =
      8502917395802955 / 2 ^ 28"
    using round_b64_nearest
      [of "- 28" "506813485 / 2 ^ 50 / (2 * (562950080124669 / 2 ^ 2 * axis_slope * axis_slope))"
          8502917395802955]
    by (simp add: axis_slope_def)
  have s': "round_b64 (562950080124669 / 2 ^ 2 - 8502917395802955 / 2 ^ 28) =
      2251799813685305 / 2 ^ 4"
    using round_b64_nearest
      [of "- 5" "562950080124669 / 2 ^ 2 - 8502917395802955 / 2 ^ 28"
          4503599627370610]
    by simp
  have G: "round_b64 (562950080124669 / 2 ^ 2 - 4506622220069423 / 2 ^ 5) =
      - (3021579072071 / 2 ^ 5)"
    using round_b64_nearest
      [of "- 16" "562950080124669 / 2 ^ 2 - 4506622220069423 / 2 ^ 5"
          "- 6188193939601408"]
    by simp
  have guard: "tol round_b64 < \<bar>round_b64 (562950080124669 / 2 ^ 2 - 4506622220069423 / 2 ^ 5)\<bar>"
    unfolding G tol_b64 by simp
  show ?thesis
    by (rule near_axis_pass
          [of "562950080124669 / 2 ^ 2" 562950080124669 "- 2"
              "1125900413656109 / 2 ^ 50" "506813485 / 2 ^ 50"
              "8502917395802955 / 2 ^ 28" "2251799813685305 / 2 ^ 4"
              "4506622220069423 / 2 ^ 5" 97 98,
           OF _ _ _ _ X2 X2r F St s' guard])
       simp_all
qed

lemma near_axis_pass_99:
  "near_axis_from (2251799813685305 / 2 ^ 4) (562950080124669 / 2 ^ 2) 98 =
   near_axis_from (2 ^ 47) (2251799813685305 / 2 ^ 4) 99"
proof -
  have X2: "round_b64 (2251799813685305 / 2 ^ 4 * axis_slope * (2251799813685305 / 2 ^ 4 * axis_slope)) =
      1125899906842681 / 2 ^ 50"
    using round_b64_nearest
      [of "- 52" "2251799813685305 / 2 ^ 4 * axis_slope * (2251799813685305 / 2 ^ 4 * axis_slope)"
          4503599627370724]
    by (simp add: axis_slope_def)
  have X2r: "round_b64 (1125899906842681 / 2 ^ 50) = 1125899906842681 / 2 ^ 50"
    using round_b64_nearest
      [of "- 52" "1125899906842681 / 2 ^ 50"
          4503599627370724]
    by simp
  have F: "round_b64 (1125899906842681 / 2 ^ 50 - 1) = 57 / 2 ^ 50"
    using round_b64_nearest
      [of "- 97" "1125899906842681 / 2 ^ 50 - 1"
          8022036836253696]
    by simp
  have St: "round_b64 (57 / 2 ^ 50 / (2 * (2251799813685305 / 2 ^ 4 * axis_slope * axis_slope))) =
      8022036836253493 / 2 ^ 51"
    using round_b64_nearest
      [of "- 51" "57 / 2 ^ 50 / (2 * (2251799813685305 / 2 ^ 4 * axis_slope * axis_slope))"
          8022036836253493]
    by (simp add: axis_slope_def)
  have s': "round_b64 (2251799813685305 / 2 ^ 4 - 8022036836253493 / 2 ^ 51) = 2 ^ 47"
    using round_b64_nearest
      [of "- 5" "2251799813685305 / 2 ^ 4 - 8022036836253493 / 2 ^ 51"
          4503599627370496]
    by simp
  have G: "round_b64 (2251799813685305 / 2 ^ 4 - 562950080124669 / 2 ^ 2) = - (506813371 / 2 ^ 4)"
    using round_b64_nearest
      [of "- 28" "2251799813685305 / 2 ^ 4 - 562950080124669 / 2 ^ 2"
          "- 8502917396955136"]
    by simp
  have guard: "tol round_b64 < \<bar>round_b64 (2251799813685305 / 2 ^ 4 - 562950080124669 / 2 ^ 2)\<bar>"
    unfolding G tol_b64 by simp
  show ?thesis
    by (rule near_axis_pass
          [of "2251799813685305 / 2 ^ 4" 2251799813685305 "- 4"
              "1125899906842681 / 2 ^ 50" "57 / 2 ^ 50"
              "8022036836253493 / 2 ^ 51" "2 ^ 47"
              "562950080124669 / 2 ^ 2" 98 99,
           OF _ _ _ _ X2 X2r F St s' guard])
       simp_all
qed

lemma near_axis_pass_100:
  "near_axis_from (2 ^ 47) (2251799813685305 / 2 ^ 4) 99 =
   near_axis_from (2 ^ 47) (2 ^ 47) 100"
proof -
  have X2: "round_b64 (2 ^ 47 * axis_slope * (2 ^ 47 * axis_slope)) = 1"
    using round_b64_nearest
      [of "- 52" "2 ^ 47 * axis_slope * (2 ^ 47 * axis_slope)"
          4503599627370496]
    by (simp add: axis_slope_def)
  have X2r: "round_b64 1 = 1"
    using round_b64_nearest
      [of "- 52" "1"
          4503599627370496]
    by simp
  have F: "round_b64 (1 - 1) = 0"
    by simp
  have St: "round_b64 (0 / (2 * (2 ^ 47 * axis_slope * axis_slope))) = 0"
    by (simp add: axis_slope_def)
  have s': "round_b64 (2 ^ 47 - 0) = 2 ^ 47"
    using round_b64_nearest
      [of "- 5" "2 ^ 47 - 0"
          4503599627370496]
    by simp
  have G: "round_b64 (2 ^ 47 - 2251799813685305 / 2 ^ 4) = - (57 / 2 ^ 4)"
    using round_b64_nearest
      [of "- 51" "2 ^ 47 - 2251799813685305 / 2 ^ 4"
          "- 8022036836253696"]
    by simp
  have guard: "tol round_b64 < \<bar>round_b64 (2 ^ 47 - 2251799813685305 / 2 ^ 4)\<bar>"
    unfolding G tol_b64 by simp
  show ?thesis
    by (rule near_axis_pass
          [of "2 ^ 47" 1 47
              "1" "0"
              "0" "2 ^ 47"
              "2251799813685305 / 2 ^ 4" 99 100,
           OF _ _ _ _ X2 X2r F St s' guard])
       simp_all
qed

lemma near_axis_stop: "near_axis_from (2 ^ 47) (2 ^ 47) 100 = Some (2 ^ 47, 2 ^ 47, 100)"
  unfolding near_axis_from_def
  by (subst newton_loop_exit) (simp_all add: max_n_tries_def)

lemma near_axis_passes:
  "near_axis_from (1 / 2 ^ 47) (- (3602879701896141 / 2 ^ 55)) 0 = Some (2 ^ 47, 2 ^ 47, 100)"
  by (simp only: near_axis_pass_1 near_axis_pass_2 near_axis_passes_3_to_68 near_axis_pass_69
      near_axis_pass_70 near_axis_pass_71 near_axis_pass_72 near_axis_pass_73
      near_axis_pass_74 near_axis_pass_75 near_axis_pass_76 near_axis_pass_77
      near_axis_pass_78 near_axis_pass_79 near_axis_pass_80 near_axis_pass_81
      near_axis_pass_82 near_axis_pass_83 near_axis_pass_84 near_axis_pass_85
      near_axis_pass_86 near_axis_pass_87 near_axis_pass_88 near_axis_pass_89
      near_axis_pass_90 near_axis_pass_91 near_axis_pass_92 near_axis_pass_93
      near_axis_pass_94 near_axis_pass_95 near_axis_pass_96 near_axis_pass_97
      near_axis_pass_98 near_axis_pass_99 near_axis_pass_100
      near_axis_stop)

lemma axis_slope_b64:
  "round_b64 axis_slope = axis_slope" "round_b64 (axis_slope * axis_slope) = axis_slope * axis_slope"
  using round_b64_exact [of 1 "- 47"] round_b64_exact [of 1 "- 94"]
  by (simp_all add: axis_slope_def)

lemma near_axis_seed: "newton_seed round_b64 near_axis_line unit_cylinder = 1 / 2 ^ 47"
proof -
  have "0 \<le> axis_slope"
    by (simp add: axis_slope_def)
  then have "sqrt (axis_slope * axis_slope) = axis_slope"
    by simp
  then have "newton_seed round_b64 near_axis_line unit_cylinder = axis_slope"
    by (simp add: newton_seed_def near_axis_line_def straight_helix_def unit_cylinder_def
        axis_slope_b64 del: real_sqrt_abs2 real_sqrt_mult_self)
  then show ?thesis by (simp add: axis_slope_def)
qed

lemma near_axis_seed_prev:
  "newton_seed_prev round_b64 near_axis_line unit_cylinder = - (3602879701896141 / 2 ^ 55)"
  using round_b64_nearest [of "- 56" "1 / 2 ^ 47 - 3602879701896397 / 2 ^ 55" "- 7205759403792282"]
  by (simp add: newton_seed_prev_def near_axis_seed tenth_b64)

lemma near_axis_run:
  "fst (newton_run round_b64 near_axis_line unit_cylinder identity_placement) =
     Some (2 ^ 47, 2 ^ 47, 100)"
proof -
  have "fst (newton_run round_b64 near_axis_line unit_cylinder identity_placement) =
        near_axis_from (1 / 2 ^ 47) (- (3602879701896141 / 2 ^ 55)) 0"
    unfolding newton_run_def Let_def near_axis_seed near_axis_seed_prev near_axis_from_def
    by (simp add: identity_placement_def getter_vector3_def unit_cylinder_def)
  then show ?thesis by (simp only: near_axis_passes)
qed

subsection \<open>The claims\<close>

text \<open>
  C7. Slot 1 of the output array is never written: whatever the rounding, the helix,
  the mask, the transform and the tolerance are, and whether or not slot 0 was
  filled, slot 1 is the default-constructed intersection.
\<close>

theorem slot1_never_written:
  "snd (helix_cylinder_intersector rnd dflt h msk trf mask_tolerance) = dflt"
  by (simp add: helix_cylinder_intersector_def Let_def split: option.split prod.split)

text \<open>
  C1, where the code departs from it: convergence reached in the 100th iteration is
  dropped. In binary64, on the line from the origin with the unit direction
  \<open>(2\<^sup>-\<^sup>4\<^sup>7, 0, 1)\<close> and the unit cylinder around the z axis, the loop makes 100 updates
  and stops with \<open>s = s_prev = 2\<^sup>4\<^sup>7\<close>: the last step has length 0, which is below the
  tolerance, and \<open>s\<close> is the crossing point \<open>(1, 0, 2\<^sup>4\<^sup>7)\<close> of the line with the cylinder.
  The intersector still returns two default-constructed intersections, because the
  test \<open>n_tries == max_n_tries\<close> after the loop does not tell convergence in the last
  permitted iteration from no convergence. Before the cap slot 0 is filled
  (\<open>slot0_filled_before_cap\<close>).
\<close>

theorem converged_on_last_try_is_dropped:
  "fst (newton_run round_b64 near_axis_line unit_cylinder identity_placement) =
     Some (2 ^ 47, 2 ^ 47, max_n_tries) \<and>
   length (snd (newton_run round_b64 near_axis_line unit_cylinder identity_placement)) = 100 \<and>
   \<bar>round_b64 (2 ^ 47 - 2 ^ 47)\<bar> \<le> tol round_b64 \<and>
   pos near_axis_line (2 ^ 47) = (1, 0, 2 ^ 47) \<and>
   norm3 round_b64 (dir near_axis_line (2 ^ 47)) = 1 \<and>
   helix_cylinder_intersector round_b64 dflt near_axis_line unit_cylinder identity_placement
     mask_tolerance = (dflt, dflt)"
proof -
  have run: "fst (newton_run round_b64 near_axis_line unit_cylinder identity_placement) =
     Some (2 ^ 47, 2 ^ 47, max_n_tries)"
    by (simp add: near_axis_run max_n_tries_def)
  obtain ds where full: "newton_run round_b64 near_axis_line unit_cylinder identity_placement =
      (Some (2 ^ 47, 2 ^ 47, max_n_tries), ds)"
    using run by (cases "newton_run round_b64 near_axis_line unit_cylinder identity_placement") simp
  then have "length ds + 0 = length ([] :: scalar list) + max_n_tries"
    unfolding newton_run_def Let_def by (rule newton_loop_counts)
  then have updates: "length (snd (newton_run round_b64 near_axis_line unit_cylinder
      identity_placement)) = 100"
    by (simp add: full max_n_tries_def)
  have small: "\<bar>round_b64 (2 ^ 47 - 2 ^ 47)\<bar> \<le> tol round_b64"
    by (simp add: tol_b64)
  have "round_b64 (2 ^ 47) = 2 ^ 47" "round_b64 (2 ^ 47 * axis_slope) = 1"
    using round_b64_exact [of 1 47] round_b64_exact [of 1 0] by (simp_all add: axis_slope_def)
  then have point: "pos near_axis_line (2 ^ 47) = (1, 0, 2 ^ 47)"
    by (simp add: near_axis_line_def straight_helix_def)
  have "round_b64 (axis_slope * axis_slope + 1) = 1"
    using round_b64_nearest [of "- 52" "axis_slope * axis_slope + 1" "2 ^ 52"]
    by (simp add: axis_slope_def)
  then have unit: "norm3 round_b64 (dir near_axis_line (2 ^ 47)) = 1"
    by (simp add: near_axis_line_def straight_helix_def axis_slope_b64)
  have absent: "helix_cylinder_intersector round_b64 dflt near_axis_line unit_cylinder
      identity_placement mask_tolerance = (dflt, dflt)"
    by (simp add: helix_cylinder_intersector_def run)
  show ?thesis
    using run updates small point unit absent by blast
qed




text \<open>
  C3. When the iteration stops before the cap, slot 0 holds the intersection built
  from the final \<open>s\<close>: its global point is the helix position at \<open>s\<close> and its path is
  the Euclidean norm of that point, the distance from the global origin, computed in
  the scalar type.
\<close>

theorem path_is_norm_of_global_point:
  "fst (newton_run rnd h msk trf) = Some (s, s_prev, n_tries) \<Longrightarrow> n_tries \<noteq> max_n_tries \<Longrightarrow>
   fst (helix_cylinder_intersector rnd dflt h msk trf mask_tolerance) =
     build_intersection rnd dflt h msk trf mask_tolerance s \<and>
   p3 (fst (helix_cylinder_intersector rnd dflt h msk trf mask_tolerance)) = pos h s \<and>
   path (fst (helix_cylinder_intersector rnd dflt h msk trf mask_tolerance)) =
     norm3 rnd (p3 (fst (helix_cylinder_intersector rnd dflt h msk trf mask_tolerance)))"
  by (simp add: helix_cylinder_intersector_def build_intersection_def Let_def)

text \<open>
  Witness for C3, in exact arithmetic: the crossing line enters the cylinder at
  \<open>(-1, 0, 5)\<close> after one iteration, at arc length 1 from its start; the path is the
  distance of that point from the origin, the square root of 26, and not the arc
  length.
\<close>

theorem path_is_norm_of_global_point_witness:
  "fst (newton_run (\<lambda>x. x) crossing_line unit_cylinder identity_placement) = Some (1, 1, 1) \<and>
   1 \<noteq> max_n_tries \<and>
   p3 (fst (helix_cylinder_intersector (\<lambda>x. x) blank_intersection crossing_line unit_cylinder
          identity_placement 0)) = (- 1, 0, 5) \<and>
   path (fst (helix_cylinder_intersector (\<lambda>x. x) blank_intersection crossing_line unit_cylinder
          identity_placement 0)) = sqrt 26 \<and>
   path (fst (helix_cylinder_intersector (\<lambda>x. x) blank_intersection crossing_line unit_cylinder
          identity_placement 0)) \<noteq> 1"
proof -
  have a: "fst (newton_run (\<lambda>x. x) crossing_line unit_cylinder identity_placement) = Some (1, 1, 1)"
    by (simp add: crossing_run)
  have b: "1 \<noteq> max_n_tries" by (simp add: max_n_tries_def)
  note found = path_is_norm_of_global_point [OF a b, of blank_intersection 0]
  have at: "pos crossing_line 1 = (- 1, 0, 5)" by (simp add: crossing_line_def)
  have c: "p3 (fst (helix_cylinder_intersector (\<lambda>x. x) blank_intersection crossing_line
          unit_cylinder identity_placement 0)) = (- 1, 0, 5)"
    using found [THEN conjunct2, THEN conjunct1] by (simp only: at)
  have "path (fst (helix_cylinder_intersector (\<lambda>x. x) blank_intersection crossing_line
          unit_cylinder identity_placement 0)) = norm3 (\<lambda>x. x) (- 1, 0, 5)"
    using found [THEN conjunct2, THEN conjunct2] by (simp only: c)
  then have d: "path (fst (helix_cylinder_intersector (\<lambda>x. x) blank_intersection crossing_line
          unit_cylinder identity_placement 0)) = sqrt 26"
    by simp
  have e: "path (fst (helix_cylinder_intersector (\<lambda>x. x) blank_intersection crossing_line
          unit_cylinder identity_placement 0)) \<noteq> 1"
    by (simp add: d)
  show ?thesis using a b c d e by blast
qed

section \<open>Properties of the cartesian2 frame\<close>

text \<open>
  C4. For a transform whose \<open>point_to_local\<close> inverts its \<open>point_to_global\<close>, every
  mask, every local 2D point and every direction, going to the global frame and back
  gives the local point again.
\<close>

theorem cartesian2_round_trip:
  "(\<forall>q. point_to_local trf (point_to_global trf q) = q) \<Longrightarrow>
   cartesian2_global_to_local trf (cartesian2_local_to_global trf msk p d) d = p"
  by (simp add: cartesian2_global_to_local_def cartesian2_local_to_global_def
      cartesian2_project3_def)

text \<open>Witness for C4: the quarter turn with a shift, at the local point \<open>(5, 7)\<close>.\<close>

theorem cartesian2_round_trip_witness:
  "(\<forall>q. point_to_local quarter_turn_placement (point_to_global quarter_turn_placement q) = q) \<and>
   cartesian2_local_to_global quarter_turn_placement unit_cylinder (5, 7) (0, 0, 1) =
     (-6, 7, 3) \<and>
   cartesian2_global_to_local quarter_turn_placement
     (cartesian2_local_to_global quarter_turn_placement unit_cylinder (5, 7) (0, 0, 1))
     (0, 0, 1) = (5, 7)"
proof -
  have inv: "\<forall>q. point_to_local quarter_turn_placement
                   (point_to_global quarter_turn_placement q) = q"
    by (simp add: quarter_turn_placement_def)
  have img: "cartesian2_local_to_global quarter_turn_placement unit_cylinder (5, 7) (0, 0, 1) =
     (-6, 7, 3)"
    by (simp add: cartesian2_local_to_global_def quarter_turn_placement_def)
  show ?thesis
    using inv img cartesian2_round_trip [OF inv, of unit_cylinder "(5, 7)" "(0, 0, 1)"]
    by simp
qed

section \<open>Properties of the consistency checker\<close>

lemma find_portals_iff: "find_portals det \<longleftrightarrow> (\<exists>pt \<in> set (portals det). is_portal pt)"
  by (auto simp: find_portals_def list_ex_iff)

text \<open>
  C5, as amended. \<open>check_empty\<close> throws the no-portals error exactly when the four
  checks before it pass (volumes, surfaces, transforms, masks) and no descriptor of
  \<open>det.portals()\<close> is flagged as a portal; whenever \<open>det.portals()\<close> holds a portal,
  that error is not thrown. The check reads \<open>det.portals()\<close>, not the surface lookup.
\<close>

theorem no_portals_fault_iff:
  "(check_empty det verbose = Inl (runtime_error No_portals) \<longleftrightarrow>
      volumes det \<noteq> [] \<and> surfaces det \<noteq> [] \<and> transform_store det \<noteq> [] \<and>
      \<not> all_empty (\<lambda>c. c = []) (mask_store det) \<and>
      \<not> (\<exists>pt \<in> set (portals det). is_portal pt)) \<and>
   ((\<exists>pt \<in> set (portals det). is_portal pt) \<longrightarrow>
      check_empty det verbose \<noteq> Inl (runtime_error No_portals))"
  by (simp add: check_empty_def find_portals_iff)

text \<open>
  Witness for C5: the minimal detector has a portal among \<open>det.portals()\<close>; the same
  detector with \<open>det.portals()\<close> emptied fails with the no-portals error.
\<close>

theorem no_portals_fault_iff_witness:
  "(\<exists>pt \<in> set (portals minimal_detector). is_portal pt) \<and>
   check_empty minimal_detector False \<noteq> Inl (runtime_error No_portals) \<and>
   \<not> (\<exists>pt \<in> set (portals hidden_portal_detector). is_portal pt) \<and>
   check_empty hidden_portal_detector False = Inl (runtime_error No_portals)"
proof -
  have a: "\<exists>pt \<in> set (portals minimal_detector). is_portal pt"
    by (simp add: minimal_detector_def portal0_def)
  have b: "volumes hidden_portal_detector \<noteq> [] \<and> surfaces hidden_portal_detector \<noteq> [] \<and>
      transform_store hidden_portal_detector \<noteq> [] \<and>
      \<not> all_empty (\<lambda>c. c = []) (mask_store hidden_portal_detector) \<and>
      \<not> (\<exists>pt \<in> set (portals hidden_portal_detector). is_portal pt)"
    by (simp add: hidden_portal_detector_def minimal_detector_def all_empty_def)
  show ?thesis
    using a b no_portals_fault_iff [of minimal_detector False]
      no_portals_fault_iff [of hidden_portal_detector False]
    by blast
qed

text \<open>
  Counterexample to C5 as stated: a detector with a portal in its surface lookup
  fails with the no-portals error, because \<open>det.portals()\<close> is empty; a detector with
  no portal in its surface lookup passes, because \<open>det.portals()\<close> holds one; and a
  detector without any surface fails with the no-volumes error instead.
\<close>

theorem portal_in_surfaces_not_consulted:
  "list_ex is_portal (surfaces hidden_portal_detector) \<and>
   check_empty hidden_portal_detector False = Inl (runtime_error No_portals) \<and>
   \<not> list_ex is_portal (surfaces stray_portal_detector) \<and>
   check_empty stray_portal_detector False = Inr [Warn_no_material] \<and>
   \<not> list_ex is_portal (surfaces empty_detector) \<and>
   check_empty empty_detector False = Inl (runtime_error No_volumes)"
  by (simp add: hidden_portal_detector_def stray_portal_detector_def empty_detector_def
      minimal_detector_def portal0_def plain0_def volume0_def check_empty_def find_portals_def
      all_empty_def coll_empty_def find_volumes_def)

text \<open>
  C8. A detector without volumes makes the checker throw the no-volumes error, and
  nothing else happens before it: no warning is printed, and the result does not
  depend on any other part of the detector, in particular on no check of a volume or
  a surface.
\<close>

theorem no_volumes_fault_first:
  "volumes det = [] \<Longrightarrow>
   check_empty det verbose = Inl (runtime_error No_volumes) \<and>
   check_consistency det verbose = ([], Inl (runtime_error No_volumes))"
  by (simp add: check_consistency_def check_empty_def)

text \<open>Witness for C8: the empty detector, whose self checks would all fail.\<close>

theorem no_volumes_fault_first_witness:
  "volumes empty_detector = [] \<and>
   check_consistency empty_detector True = ([], Inl (runtime_error No_volumes))"
proof -
  have a: "volumes empty_detector = []" by (simp add: empty_detector_def)
  show ?thesis using a no_volumes_fault_first [OF a, of True] by simp
qed

lemma minimal_detector_passes:
  "check_consistency minimal_detector False = ([Warn_no_material], Inr True)"
  by (simp add: check_consistency_def check_empty_def minimal_detector_def portal0_def
      volume0_def find_portals_def all_empty_def coll_empty_def find_volumes_def
      check_volume_def check_surface_def surface_checker_consistency_def
      surface_checker_search_def det_surface_def)

text \<open>
  C9. For a detector that passes the five fatal presence checks, an entirely empty
  material store yields the warning and no error: \<open>check_empty\<close> returns with the
  warning first, the checker goes on to the volumes and the surfaces, and it can
  still return true, as it does on the minimal detector.
\<close>

theorem empty_material_store_only_warns:
  "volumes det \<noteq> [] \<Longrightarrow> surfaces det \<noteq> [] \<Longrightarrow> transform_store det \<noteq> [] \<Longrightarrow>
   \<not> all_empty (\<lambda>c. c = []) (mask_store det) \<Longrightarrow> find_portals det \<Longrightarrow>
   all_empty coll_empty (material_store det) \<Longrightarrow>
   (\<exists>ws. check_empty det verbose = Inr (Warn_no_material # ws) \<and>
         fst (check_consistency det verbose) = Warn_no_material # ws) \<and>
   snd (check_consistency det verbose) =
     (case check_volumes det 0 (volumes det) of
        Some e \<Rightarrow> Inl e
      | None \<Rightarrow>
          (case check_surfaces det 0 (surfaces det) of
             Some e \<Rightarrow> Inl e
           | None \<Rightarrow> Inr True)) \<and>
   (\<exists>d :: (unit, unit, unit) detector.
      all_empty coll_empty (material_store d) \<and>
      check_consistency d False = ([Warn_no_material], Inr True))"
proof (intro conjI)
  assume a: "volumes det \<noteq> []" "surfaces det \<noteq> []" "transform_store det \<noteq> []"
    "\<not> all_empty (\<lambda>c. c = []) (mask_store det)" "find_portals det"
    "all_empty coll_empty (material_store det)"
  then show "\<exists>ws. check_empty det verbose = Inr (Warn_no_material # ws) \<and>
         fst (check_consistency det verbose) = Warn_no_material # ws"
    by (simp add: check_consistency_def check_empty_def)
  from a show "snd (check_consistency det verbose) =
     (case check_volumes det 0 (volumes det) of
        Some e \<Rightarrow> Inl e
      | None \<Rightarrow>
          (case check_surfaces det 0 (surfaces det) of
             Some e \<Rightarrow> Inl e
           | None \<Rightarrow> Inr True))"
    by (simp add: check_consistency_def check_empty_def)
  have "all_empty coll_empty (material_store minimal_detector)"
    by (simp add: minimal_detector_def all_empty_def coll_empty_def)
  then show "\<exists>d :: (unit, unit, unit) detector.
      all_empty coll_empty (material_store d) \<and>
      check_consistency d False = ([Warn_no_material], Inr True)"
    using minimal_detector_passes by blast
qed

text \<open>Witness for C9: the minimal detector, whose material store is entirely empty.\<close>

theorem empty_material_store_only_warns_witness:
  "volumes minimal_detector \<noteq> [] \<and> surfaces minimal_detector \<noteq> [] \<and>
   transform_store minimal_detector \<noteq> [] \<and>
   \<not> all_empty (\<lambda>c. c = []) (mask_store minimal_detector) \<and>
   find_portals minimal_detector \<and>
   all_empty coll_empty (material_store minimal_detector) \<and>
   check_empty minimal_detector False = Inr [Warn_no_material] \<and>
   check_consistency minimal_detector False = ([Warn_no_material], Inr True)"
proof -
  have a: "volumes minimal_detector \<noteq> []" "surfaces minimal_detector \<noteq> []"
    "transform_store minimal_detector \<noteq> []"
    "\<not> all_empty (\<lambda>c. c = []) (mask_store minimal_detector)"
    by (simp_all add: minimal_detector_def all_empty_def)
  have b: "find_portals minimal_detector"
    by (simp add: find_portals_def minimal_detector_def portal0_def)
  have c: "all_empty coll_empty (material_store minimal_detector)"
    by (simp add: minimal_detector_def all_empty_def coll_empty_def)
  have d: "check_empty minimal_detector False = Inr [Warn_no_material]"
    by (simp add: check_empty_def a b c) (simp add: minimal_detector_def find_volumes_def)
  from empty_material_store_only_warns [OF a b c, of False]
  have "snd (check_consistency minimal_detector False) =
     (case check_volumes minimal_detector 0 (volumes minimal_detector) of
        Some e \<Rightarrow> Inl e
      | None \<Rightarrow>
          (case check_surfaces minimal_detector 0 (surfaces minimal_detector) of
             Some e \<Rightarrow> Inl e
           | None \<Rightarrow> Inr True))"
    by blast
  then have "check_consistency minimal_detector False = ([Warn_no_material], Inr True)"
    by (simp add: minimal_detector_passes)
  with a b c d show ?thesis by blast
qed

subsection \<open>A surface missing from its volume\<close>













section \<open>Properties of the io type ids\<close>

lemma type_index_found:
  "Some t \<in> set xs \<Longrightarrow> type_index xs t < length xs \<and> xs ! type_index xs t = Some t"
  by (induction xs) auto

text \<open>
  C10. \<open>get_id\<close> is total: for a shape that is not registered it returns the
  enumerator \<open>unknown\<close>, and for a registered shape the id of the registry, which is
  the position of the shape among the registered types; the same holds for the
  frame of a grid.
\<close>

theorem get_id_total:
  "(\<not> is_defined shape_registry shape_t \<longrightarrow> get_id_shape unknown shape_t = unknown) \<and>
   (is_defined shape_registry shape_t \<longrightarrow>
      get_id_shape unknown shape_t = registry_get_id shape_registry shape_t \<and>
      get_id_shape unknown shape_t < length shape_registry \<and>
      shape_registry ! get_id_shape unknown shape_t = Some shape_t) \<and>
   (\<not> is_defined frame_registry frame_t \<longrightarrow> get_id_grid unknown' frame_t = unknown') \<and>
   (is_defined frame_registry frame_t \<longrightarrow>
      get_id_grid unknown' frame_t = registry_get_id frame_registry frame_t \<and>
      get_id_grid unknown' frame_t < length frame_registry \<and>
      frame_registry ! get_id_grid unknown' frame_t = Some frame_t)"
  using type_index_found [of shape_t shape_registry] type_index_found [of frame_t frame_registry]
  by (simp add: get_id_shape_def get_id_grid_def is_defined_def registry_get_id_def)

text \<open>
  Witness for C10: a registered and an unregistered shape, a registered and an
  unregistered frame.
\<close>

theorem get_id_total_witness:
  "is_defined shape_registry cylinder3D \<and> get_id_shape 13 cylinder3D = 3 \<and>
   \<not> is_defined shape_registry (single3D 3) \<and> get_id_shape 13 (single3D 3) = 13 \<and>
   is_defined frame_registry polar2 \<and> get_id_grid 7 polar2 = 3 \<and>
   \<not> is_defined frame_registry (unregistered_frame ''line2'') \<and>
   get_id_grid 7 (unregistered_frame ''line2'') = 7"
proof -
  have a: "is_defined shape_registry cylinder3D"
    "\<not> is_defined shape_registry (single3D 3)"
    "is_defined frame_registry polar2"
    "\<not> is_defined frame_registry (unregistered_frame ''line2'')"
    by (simp_all add: is_defined_def shape_registry_def frame_registry_def)
  have b: "registry_get_id shape_registry cylinder3D = 3"
    "registry_get_id frame_registry polar2 = 3"
    by (simp_all add: registry_get_id_def shape_registry_def frame_registry_def)
  show ?thesis
    using a b get_id_total [of cylinder3D 13 polar2 7]
      get_id_total [of "single3D 3" 13 "unregistered_frame ''line2''" 7]
    by simp
qed

end
